theory Spec2Isabelle
  imports Main "HOL-Library.Sublist" "HOL-Library.Char_ord" "HOL-Library.List_Lexorder"
    "HOL-Library.Product_Lexorder"
begin

section \<open>Python values used by QuickADB\<close>

text \<open>
  QuickADB is a PyQt front end for \<^verbatim>\<open>adb\<close>.  Its logic is text processing of command
  output with Python's \<^verbatim>\<open>str\<close> methods, wrapped in \<^verbatim>\<open>try\<close>/\<^verbatim>\<open>except\<close>.  This first part
  embeds the string methods the modules call.

  A Python string is modelled as a \<^typ>\<open>string\<close>.  The character classes are Python's on
  ASCII text: whitespace is TAB, LF, VT, FF, CR, FS, GS, RS, US and SPACE, digits are
  \<^verbatim>\<open>0\<close>..\<^verbatim>\<open>9\<close>, and only \<^verbatim>\<open>a\<close>..\<^verbatim>\<open>z\<close> and \<^verbatim>\<open>A\<close>..\<^verbatim>\<open>Z\<close> have case.  Characters
  from 128 on are treated as ordinary characters of no class.
\<close>

subsection \<open>Exceptions\<close>

text \<open>
  An exception is a value; every constructor carries the text that \<^verbatim>\<open>str(e)\<close> returns.
  \<open>CalledProcessError\<close> also carries the captured output (\<^verbatim>\<open>e.output\<close>).  A function
  that can raise returns \<open>exn + 'a\<close>, with \<open>Inl\<close> for the raised exception.
\<close>

datatype exn =
    CalledProcessError string string
  | TimeoutExpired string
  | ValueError string
  | IndexError string
  | OverflowError string
  | OtherException string

fun str_exn :: "exn \<Rightarrow> string" where
  "str_exn (CalledProcessError out txt) = txt"
| "str_exn (TimeoutExpired txt) = txt"
| "str_exn (ValueError txt) = txt"
| "str_exn (IndexError txt) = txt"
| "str_exn (OverflowError txt) = txt"
| "str_exn (OtherException txt) = txt"

fun is_ValueError :: "exn \<Rightarrow> bool" where
  "is_ValueError (ValueError txt) = True"
| "is_ValueError e = False"

subsection \<open>Character classes\<close>

definition isspace :: "char \<Rightarrow> bool" where
  "isspace c \<longleftrightarrow> c \<in> set [CHR 0x09, CHR 0x0A, CHR 0x0B, CHR 0x0C, CHR 0x0D,
                          CHR 0x1C, CHR 0x1D, CHR 0x1E, CHR 0x1F, CHR 0x20]"

definition isdigit_char :: "char \<Rightarrow> bool" where
  "isdigit_char c \<longleftrightarrow> c \<in> set ''0123456789''"

definition digit_val :: "char \<Rightarrow> int" where
  "digit_val c = int (of_char c) - 48"

definition digit_char :: "int \<Rightarrow> char" where
  "digit_char d = ''0123456789'' ! nat d"

subsection \<open>strip, split and friends\<close>

text \<open>\<^verbatim>\<open>s.strip()\<close>\<close>

definition strip :: "string \<Rightarrow> string" where
  "strip s = rev (dropWhile isspace (rev (dropWhile isspace s)))"

text \<open>
  \<^verbatim>\<open>s.split(maxsplit=m)\<close> on whitespace; \<open>None\<close> is the call with no limit.  As in
  CPython, once the limit is used up the rest of the string is one last field, with its
  leading whitespace removed and its trailing whitespace kept.
\<close>

function py_split :: "nat option \<Rightarrow> string \<Rightarrow> string list" where
  "py_split m s =
     (let s' = dropWhile isspace s in
      if s' = [] then []
      else if m = Some 0 then [s']
      else takeWhile (\<lambda>c. \<not> isspace c) s'
             # py_split (map_option (\<lambda>n. n - 1) m) (dropWhile (\<lambda>c. \<not> isspace c) s'))"
  by pat_completeness auto
termination
proof (relation "measure (\<lambda>(m, s). length s)")
  show "wf (measure (\<lambda>(m, s). length s))" by simp
next
  fix m :: "nat option" and s s' :: string
  assume s': "s' = dropWhile isspace s" and ne: "s' \<noteq> []"
  from ne obtain c r where cr: "s' = c # r" by (cases s') auto
  have "\<not> isspace (hd s')" using hd_dropWhile [of isspace s] ne s' by simp
  then have "\<not> isspace c" using cr by simp
  then have "length (dropWhile (\<lambda>c. \<not> isspace c) s') \<le> length r"
    using cr by (simp add: length_dropWhile_le)
  moreover have "length s' \<le> length s" using s' by (simp add: length_dropWhile_le)
  ultimately show "((map_option (\<lambda>n. n - 1) m, dropWhile (\<lambda>c. \<not> isspace c) s'), (m, s))
      \<in> measure (\<lambda>(m, s). length s)"
    using cr by simp
qed

declare py_split.simps [simp del]

text \<open>\<^verbatim>\<open>s.split(c)\<close> for a one-character separator: every occurrence separates.\<close>

fun split_on :: "char \<Rightarrow> string \<Rightarrow> string list" where
  "split_on c [] = [[]]"
| "split_on c (x # xs) =
     (if x = c then [] # split_on c xs
      else (case split_on c xs of w # ws \<Rightarrow> (x # w) # ws | [] \<Rightarrow> [[x]]))"

text \<open>\<^verbatim>\<open>s.rsplit(c, 1)\<close>: split at the last occurrence of \<open>c\<close>, if there is one.\<close>

definition rsplit1 :: "char \<Rightarrow> string \<Rightarrow> string list" where
  "rsplit1 c s =
     (if c \<in> set s
      then [rev (drop 1 (dropWhile (\<lambda>x. x \<noteq> c) (rev s))), rev (takeWhile (\<lambda>x. x \<noteq> c) (rev s))]
      else [s])"

text \<open>\<^verbatim>\<open>s.split(sep, 1)\<close> for a non-empty separator: split at the first occurrence.\<close>

fun find_sep :: "string \<Rightarrow> string \<Rightarrow> (string \<times> string) option" where
  "find_sep sep [] = (if sep = [] then Some ([], []) else None)"
| "find_sep sep (c # cs) =
     (if prefix sep (c # cs) then Some ([], drop (length sep) (c # cs))
      else map_option (\<lambda>(a, b). (c # a, b)) (find_sep sep cs))"

definition split1 :: "string \<Rightarrow> string \<Rightarrow> string list" where
  "split1 sep s = (case find_sep sep s of Some (a, b) \<Rightarrow> [a, b] | None \<Rightarrow> [s])"

text \<open>\<^verbatim>\<open>sub in s\<close> and \<^verbatim>\<open>s.startswith(p)\<close>\<close>

fun contains :: "string \<Rightarrow> string \<Rightarrow> bool" where
  "contains sub [] = (sub = [])"
| "contains sub (c # cs) = (prefix sub (c # cs) \<or> contains sub cs)"

definition startswith :: "string \<Rightarrow> string \<Rightarrow> bool" where
  "startswith s p = prefix p s"

text \<open>
  \<^verbatim>\<open>s.splitlines()\<close>: a line ends at LF, CR, CR LF, VT, FF, FS, GS or RS; the terminators
  are dropped and a final terminator opens no further line.  \<open>cur\<close> is the current line,
  reversed.
\<close>

definition is_linebreak :: "char \<Rightarrow> bool" where
  "is_linebreak c \<longleftrightarrow> c \<in> set [CHR 0x0A, CHR 0x0B, CHR 0x0C, CHR 0x0D, CHR 0x1C, CHR 0x1D, CHR 0x1E]"

fun splitlines_from :: "string \<Rightarrow> string \<Rightarrow> string list" where
  "splitlines_from cur [] = (if cur = [] then [] else [rev cur])"
| "splitlines_from cur (c # cs) =
     (if is_linebreak c then
        rev cur # (case cs of
                     d # ds \<Rightarrow> if c = CHR 0x0D \<and> d = CHR 0x0A then splitlines_from [] ds
                               else splitlines_from [] cs
                   | [] \<Rightarrow> splitlines_from [] cs)
      else splitlines_from (c # cur) cs)"

definition splitlines :: "string \<Rightarrow> string list" where
  "splitlines s = splitlines_from [] s"

text \<open>\<^verbatim>\<open>s.replace(old, new)\<close>: the occurrences of \<open>old\<close>, left to right, not overlapping.\<close>

function replace_ne :: "string \<Rightarrow> string \<Rightarrow> string \<Rightarrow> string" where
  "replace_ne old new [] = []"
| "replace_ne old new (c # cs) =
     (if old \<noteq> [] \<and> prefix old (c # cs)
      then new @ replace_ne old new (drop (length old) (c # cs))
      else c # replace_ne old new cs)"
  by pat_completeness auto
termination
  by (relation "measure (\<lambda>(old, new, s). length s)") (auto simp: neq_Nil_conv)

definition py_replace :: "string \<Rightarrow> string \<Rightarrow> string \<Rightarrow> string" where
  "py_replace old new s =
     (if old = [] then new @ concat (map (\<lambda>c. c # new) s) else replace_ne old new s)"

text \<open>\<^verbatim>\<open>sep.join(xs)\<close>\<close>

fun join :: "string \<Rightarrow> string list \<Rightarrow> string" where
  "join sep [] = []"
| "join sep [x] = x"
| "join sep (x # y # ys) = x @ sep @ join sep (y # ys)"

text \<open>\<^verbatim>\<open>s.lower()\<close>, \<^verbatim>\<open>s.upper()\<close>, \<^verbatim>\<open>s.capitalize()\<close>\<close>

definition lower_char :: "char \<Rightarrow> char" where
  "lower_char c = (let n = (of_char c :: nat) in if 65 \<le> n \<and> n \<le> 90 then char_of (n + 32) else c)"

definition upper_char :: "char \<Rightarrow> char" where
  "upper_char c = (let n = (of_char c :: nat) in if 97 \<le> n \<and> n \<le> 122 then char_of (n - 32) else c)"

definition lower :: "string \<Rightarrow> string" where
  "lower s = map lower_char s"


definition capitalize :: "string \<Rightarrow> string" where
  "capitalize s = (case s of [] \<Rightarrow> [] | c # cs \<Rightarrow> upper_char c # lower cs)"

text \<open>\<^verbatim>\<open>s.isdigit()\<close>\<close>

definition isdigit :: "string \<Rightarrow> bool" where
  "isdigit s \<longleftrightarrow> s \<noteq> [] \<and> list_all isdigit_char s"

subsection \<open>Numbers and their text\<close>

text \<open>
  \<^verbatim>\<open>str(n)\<close> for an integer.  Numbers are computed in \<^typ>\<open>int\<close> throughout, as Python
  does; \<open>show_digits\<close> is the decimal text of a number that is not negative.
\<close>

function show_digits :: "int \<Rightarrow> string" where
  "show_digits n = (if n < 10 then [digit_char n] else show_digits (n div 10) @ [digit_char (n mod 10)])"
  by pat_completeness auto
termination
  by (relation "measure nat") auto

declare show_digits.simps [simp del]

definition show_int :: "int \<Rightarrow> string" where
  "show_int i = (if i < 0 then CHR ''-'' # show_digits (- i) else show_digits i)"

text \<open>
  \<^verbatim>\<open>repr(s)\<close> of a string, which the message of a failed \<^verbatim>\<open>int(s)\<close> quotes: single quotes
  unless the string has a single quote and no double quote; the quote, the backslash and
  the control characters are escaped.
\<close>

definition hex_digit :: "nat \<Rightarrow> char" where
  "hex_digit d = ''0123456789abcdef'' ! d"

definition repr_char :: "char \<Rightarrow> char \<Rightarrow> string" where
  "repr_char q c =
     (let n = (of_char c :: nat) in
      if c = q \<or> c = CHR 0x5C then [CHR 0x5C, c]
      else if c = CHR 0x09 then [CHR 0x5C, CHR ''t'']
      else if c = CHR 0x0A then [CHR 0x5C, CHR ''n'']
      else if c = CHR 0x0D then [CHR 0x5C, CHR ''r'']
      else if n < 32 \<or> n = 127 then [CHR 0x5C, CHR ''x'', hex_digit (n div 16), hex_digit (n mod 16)]
      else [c])"

definition py_repr :: "string \<Rightarrow> string" where
  "py_repr s =
     (let q = (if CHR 0x27 \<in> set s \<and> CHR 0x22 \<notin> set s then CHR 0x22 else CHR 0x27)
      in q # concat (map (repr_char q) s) @ [q])"

text \<open>
  \<^verbatim>\<open>int(s)\<close>: surrounding whitespace, one optional sign, then decimal digits, where single
  underscores may stand between digits.  Anything else raises \<^verbatim>\<open>ValueError\<close>, and so does
  a literal of more than 4300 digits (CPython's default limit on the conversion).  The
  whitespace that \<^verbatim>\<open>int\<close> skips is TAB, LF, VT, FF, CR and SPACE: unlike \<^verbatim>\<open>str.strip\<close> it does
  not skip the four separators \<open>0x1C\<close> to \<open>0x1F\<close>.
\<close>

definition int_space :: "char \<Rightarrow> bool" where
  "int_space c \<longleftrightarrow> c \<in> set [CHR 0x09, CHR 0x0A, CHR 0x0B, CHR 0x0C, CHR 0x0D, CHR 0x20]"

fun valid_digits :: "string \<Rightarrow> bool" where
  "valid_digits [] = False"
| "valid_digits [c] = isdigit_char c"
| "valid_digits (c # d # r) =
     (isdigit_char c \<and> (if d = CHR ''_'' then valid_digits r else valid_digits (d # r)))"

definition int_of_digits :: "string \<Rightarrow> int" where
  "int_of_digits ds = foldl (\<lambda>a c. 10 * a + digit_val c) 0 ds"

definition int_max_str_digits :: nat where
  "int_max_str_digits = 4300"

definition py_int :: "string \<Rightarrow> exn + int" where
  "py_int s =
     (let t = rev (dropWhile int_space (rev (dropWhile int_space s)));
          neg = (case t of c # r \<Rightarrow> c = CHR ''-'' | [] \<Rightarrow> False);
          body = (case t of c # r \<Rightarrow> if c = CHR ''-'' \<or> c = CHR ''+'' then r else t | [] \<Rightarrow> t);
          ds = filter (\<lambda>c. c \<noteq> CHR ''_'') body
      in if \<not> valid_digits body
         then Inl (ValueError (''invalid literal for int() with base 10: '' @ py_repr s))
         else if length ds > int_max_str_digits
         then Inl (ValueError (''Exceeds the limit (4300 digits) for integer string conversion: value has ''
                      @ show_digits (int (length ds))
                      @ '' digits; use sys.set_int_max_str_digits() to increase the limit''))
         else Inr (if neg then - int_of_digits ds else int_of_digits ds))"


text \<open>\<^verbatim>\<open>str(xs)\<close> of a list of strings, as the messages of \<^verbatim>\<open>subprocess\<close> print a command.\<close>

definition py_repr_list :: "string list \<Rightarrow> string" where
  "py_repr_list xs = ''['' @ join '', '' (map py_repr xs) @ '']''"

subsection \<open>Floating point, exactly\<close>

text \<open>
  The size formatters divide by powers of 1024 in floating point.  Dividing an integer \<open>n\<close>
  by \<open>2 ^ s\<close> gives the double nearest to the quotient (ties to even), which is
  \<open>round53 n / 2 ^ s\<close>: \<open>round53 n\<close> is \<open>n\<close> rounded to 53 significant bits.  Python raises
  \<^verbatim>\<open>OverflowError\<close> when that double would reach \<open>2 ^ 1024\<close>.  Dividing a double by 1024 again
  is exact.  So a value in these computations is a pair \<open>(m, s)\<close> that stands for
  \<open>m / 2 ^ s\<close>, and all the arithmetic is on integers.
\<close>

function bit_length :: "int \<Rightarrow> nat" where
  "bit_length n = (if n \<le> 0 then 0 else Suc (bit_length (n div 2)))"
  by pat_completeness auto
termination
  by (relation "measure nat") auto

declare bit_length.simps [simp del]

definition round53 :: "int \<Rightarrow> int" where
  "round53 n =
     (let a = \<bar>n\<bar>; b = bit_length a in
      if b \<le> 53 then n
      else
        let e = b - 53; q = a div 2 ^ e; r = a mod 2 ^ e; h = 2 ^ (e - 1);
            q' = (if r > h \<or> (r = h \<and> odd q) then q + 1 else q)
        in sgn n * (q' * 2 ^ e))"

text \<open>\<^verbatim>\<open>n / 2 ** s\<close> for integers: the \<open>m\<close> of the resulting double \<open>m / 2 ^ s\<close>, or the overflow.\<close>

definition true_divide :: "int \<Rightarrow> nat \<Rightarrow> exn + int" where
  "true_divide n s =
     (let m = round53 n in
      if \<bar>m\<bar> \<ge> 2 ^ (1024 + s)
      then Inl (OverflowError ''integer division result too large for a float'')
      else Inr m)"

text \<open>
  \<^verbatim>\<open>float(n)\<close> for an integer, which is also what formatting an integer with \<^verbatim>\<open>.1f\<close> does
  first: the \<open>m\<close> of the double \<open>m / 2 ^ 0\<close>, or the overflow.
\<close>

definition int_to_float :: "int \<Rightarrow> exn + int" where
  "int_to_float n =
     (let m = round53 n in
      if \<bar>m\<bar> \<ge> 2 ^ 1024
      then Inl (OverflowError ''int too large to convert to float'')
      else Inr m)"

text \<open>
  \<^verbatim>\<open>f"{x:.df}"\<close> for \<open>x = m / 2 ^ s\<close>: the decimal with \<open>d\<close> places nearest to \<open>x\<close>, ties to
  even.
\<close>

definition format_fixed :: "nat \<Rightarrow> int \<Rightarrow> nat \<Rightarrow> string" where
  "format_fixed d m s =
     (let a = \<bar>m\<bar> * 10 ^ d; q = a div 2 ^ s; r = a mod 2 ^ s;
          h = (if 2 * r > 2 ^ s \<or> (2 * r = 2 ^ s \<and> odd q) then q + 1 else q);
          frac = show_digits (h mod 10 ^ d)
      in (if m < 0 then ''-'' else []) @ show_digits (h div 10 ^ d) @ ''.''
           @ replicate (d - length frac) (CHR ''0'') @ frac)"

section \<open>Child processes\<close>

text \<open>
  Every command runs \<^verbatim>\<open>adb\<close> as a child process through \<^verbatim>\<open>subprocess\<close>.  What the child
  does is the environment of the model: it exits after some seconds with a return code,
  its standard output and its standard error; or it never exits; or the call fails
  with an exception (the executable is missing, the output cannot be decoded).  Where the
  program asks for \<^verbatim>\<open>stderr=subprocess.STDOUT\<close> the output field holds both streams.
\<close>

datatype child = Exits nat int string string | Hangs | Fails exn

datatype completed = Completed (returncode: int) (stdout: string) (stderr: string)

text \<open>
  \<^verbatim>\<open>subprocess.run(cmd, ..., timeout=t)\<close> without \<^verbatim>\<open>check\<close>.  The result is \<open>None\<close> when the
  call never returns: that is a child that never exits, run with no timeout.  With a
  timeout the call raises \<^verbatim>\<open>TimeoutExpired\<close> instead.  \<open>cmd\<close> is the command as the
  exception text prints it.
\<close>

definition timeout_text :: "string \<Rightarrow> nat \<Rightarrow> string" where
  "timeout_text cmd t =
     ''Command '' @ [CHR 0x27] @ cmd @ [CHR 0x27] @ '' timed out after '' @ show_digits (int t) @ '' seconds''"

definition subprocess_run :: "string \<Rightarrow> nat option \<Rightarrow> child \<Rightarrow> (exn + completed) option" where
  "subprocess_run cmd timeout ch =
     (case ch of
        Exits d rc out err \<Rightarrow>
          (case timeout of
             None \<Rightarrow> Some (Inr (Completed rc out err))
           | Some t \<Rightarrow> if d > t then Some (Inl (TimeoutExpired (timeout_text cmd t)))
                      else Some (Inr (Completed rc out err)))
      | Hangs \<Rightarrow>
          (case timeout of
             None \<Rightarrow> None
           | Some t \<Rightarrow> Some (Inl (TimeoutExpired (timeout_text cmd t))))
      | Fails e \<Rightarrow> Some (Inl e))"

text \<open>
  \<^verbatim>\<open>subprocess.check_output(cmd, text=True, stderr=subprocess.STDOUT)\<close>, which has no timeout:
  the output when the return code is 0, \<^verbatim>\<open>CalledProcessError\<close> otherwise.  (For a child
  killed by a signal that the platform names, Python prints the signal's name in the text
  where this text has \<open>unknown signal n\<close>.)
\<close>

definition called_process_error_text :: "string list \<Rightarrow> int \<Rightarrow> string" where
  "called_process_error_text cmd rc =
     ''Command '' @ [CHR 0x27] @ py_repr_list cmd @ [CHR 0x27] @
       (if rc < 0 then '' died with unknown signal '' @ show_digits (- rc) @ ''.''
        else '' returned non-zero exit status '' @ show_digits rc @ ''.'')"

definition check_output :: "string list \<Rightarrow> child \<Rightarrow> (exn + string) option" where
  "check_output cmd ch =
     (case subprocess_run (py_repr_list cmd) None ch of
        None \<Rightarrow> None
      | Some (Inl e) \<Rightarrow> Some (Inl e)
      | Some (Inr r) \<Rightarrow>
          if returncode r = 0 then Some (Inr (stdout r))
          else Some (Inl (CalledProcessError (stdout r) (called_process_error_text cmd (returncode r)))))"

section \<open>The command thread of the file explorer (modules/fileexplorer.py)\<close>

text \<open>
  \<^verbatim>\<open>ADBThread.run\<close>.  \<open>command\<close> is the list the constructor made of its argument.  The
  result is the list of \<^verbatim>\<open>command_finished\<close> signals the run emits, each with its output
  and its \<^verbatim>\<open>is_error\<close> flag, or \<open>None\<close> when the run never returns.  The inner \<open>case\<close> is
  the \<^verbatim>\<open>try\<close> block: \<^verbatim>\<open>full_command[0]\<close> raises on an empty command, and the signal
  of the success path is emitted inside the block.
\<close>

definition prefixed_command :: "string \<Rightarrow> string \<Rightarrow> string list \<Rightarrow> string list" where
  "prefixed_command adb_path c0 full_command =
     (if c0 \<noteq> adb_path then adb_path # full_command else full_command)"

definition ADBThread_run :: "string \<Rightarrow> string list \<Rightarrow> string list \<Rightarrow> child \<Rightarrow> (string \<times> bool) list option" where
  "ADBThread_run adb_path command params ch =
     (let full_command = command @ params in
      case (case full_command of
              [] \<Rightarrow> Some (Inl (IndexError ''list index out of range''))
            | c0 # rest \<Rightarrow>
                (case check_output (prefixed_command adb_path c0 full_command) ch of
                   None \<Rightarrow> None
                 | Some (Inl e) \<Rightarrow> Some (Inl e)
                 | Some (Inr output) \<Rightarrow> Some (Inr [(output, False)])))
      of
        None \<Rightarrow> None
      | Some (Inr emitted) \<Rightarrow> Some emitted
      | Some (Inl e) \<Rightarrow>
          (case e of
             CalledProcessError out txt \<Rightarrow> Some [(if out \<noteq> [] then out else str_exn e, True)]
           | _ \<Rightarrow> Some [(str_exn e, True)]))"

subsection \<open>What a run emits\<close>






section \<open>Device information (main/adbfunc.py)\<close>

text \<open>
  \<^verbatim>\<open>DeviceInfoWorker._get_device_commands\<close>: the dictionary, in its insertion order, which
  is the order \<^verbatim>\<open>run\<close> iterates in.
\<close>

definition get_device_commands :: "string \<Rightarrow> (string \<times> string) list" where
  "get_device_commands adb_path =
     [(''IMEI'', adb_path @ '' shell service call iphonesubinfo 3''),
      (''Fingerprint'', adb_path @ '' shell getprop ro.build.fingerprint''),
      (''Board'', adb_path @ '' shell getprop ro.product.board''),
      (''Build ID'', adb_path @ '' shell getprop ro.build.id''),
      (''Android Version'', adb_path @ '' shell getprop ro.build.version.release''),
      (''Manufacturer'', adb_path @ '' shell getprop ro.product.manufacturer''),
      (''Model'', adb_path @ '' shell getprop ro.product.model''),
      (''Product Name'', adb_path @ '' shell getprop ro.product.name''),
      (''Architecture'', adb_path @ '' shell getprop ro.product.cpu.abi''),
      (''Resolution'', adb_path @ '' shell wm size''),
      (''Total RAM'', adb_path @ '' shell cat /proc/meminfo''),
      (''Total Storage'', adb_path @ '' shell df''),
      (''Root Method'', adb_path @ '' shell su -v'')]"

text \<open>\<^verbatim>\<open>re.findall(r"\d+", s)\<close>: the maximal runs of digits.\<close>

fun digit_runs :: "string \<Rightarrow> string list" where
  "digit_runs [] = []"
| "digit_runs (c # cs) =
     (if isdigit_char c then
        (case cs of
           [] \<Rightarrow> [[c]]
         | d # ds \<Rightarrow>
             if isdigit_char d then (case digit_runs cs of w # ws \<Rightarrow> (c # w) # ws | [] \<Rightarrow> [[c]])
             else [c] # digit_runs cs)
      else digit_runs cs)"

text \<open>\<^verbatim>\<open>_parse_imei\<close>\<close>

definition parse_imei :: "string \<Rightarrow> string" where
  "parse_imei raw_output =
     (let matches = digit_runs raw_output in
      if matches \<noteq> [] then
        (let imei = concat matches in if length imei \<ge> 14 then take 15 imei else ''Unknown'')
      else ''Unknown'')"

text \<open>\<^verbatim>\<open>_parse_total_ram\<close>: \<^verbatim>\<open>line.split()[1]\<close> raises when the line has one field only.\<close>

fun parse_total_ram_lines :: "string list \<Rightarrow> exn + int" where
  "parse_total_ram_lines [] = Inr 0"
| "parse_total_ram_lines (line # rest) =
     (if contains ''MemTotal'' line then
        (case py_split None line of
           p0 # p1 # ps \<Rightarrow> py_int p1
         | _ \<Rightarrow> Inl (IndexError ''list index out of range''))
      else parse_total_ram_lines rest)"

definition parse_total_ram :: "string \<Rightarrow> exn + int" where
  "parse_total_ram output = parse_total_ram_lines (splitlines output)"

text \<open>\<^verbatim>\<open>_parse_total_storage\<close>\<close>

definition storage_patterns :: "string list" where
  "storage_patterns = [''/data'', ''/data/media'', ''/storage/emulated'']"

fun parse_total_storage_lines :: "string list \<Rightarrow> exn + int" where
  "parse_total_storage_lines [] = Inr 0"
| "parse_total_storage_lines (line # rest) =
     (if list_ex (\<lambda>pattern. contains pattern line) storage_patterns then
        (let parts = py_split None line in
         if length parts \<ge> 2 \<and> isdigit (parts ! 1) then py_int (parts ! 1)
         else parse_total_storage_lines rest)
      else parse_total_storage_lines rest)"

definition parse_total_storage :: "string \<Rightarrow> exn + int" where
  "parse_total_storage output = parse_total_storage_lines (splitlines output)"

text \<open>
  \<^verbatim>\<open>f"{math.ceil(n / (1024 ** 2))} GB"\<close>: the division is a floating-point one, the ceiling
  is an integer again.
\<close>

definition ceil_gb :: "int \<Rightarrow> exn + string" where
  "ceil_gb n =
     (case true_divide n 20 of
        Inl e \<Rightarrow> Inl e
      | Inr m \<Rightarrow> Inr (show_int (- ((- m) div 2 ^ 20)) @ '' GB''))"

text \<open>\<^verbatim>\<open>_format_output\<close>: the formatter of the label, if it has one.\<close>

definition format_output :: "string \<Rightarrow> string \<Rightarrow> exn + string" where
  "format_output label output =
     (if label = ''Total RAM'' then
        (case parse_total_ram output of Inl e \<Rightarrow> Inl e | Inr n \<Rightarrow> ceil_gb n)
      else if label = ''Total Storage'' then
        (case parse_total_storage output of Inl e \<Rightarrow> Inl e | Inr n \<Rightarrow> ceil_gb n)
      else if label = ''IMEI'' then Inr (parse_imei output)
      else Inr output)"

text \<open>
  One iteration of the loop of \<^verbatim>\<open>DeviceInfoWorker.run\<close>: the line it appends to
  \<^verbatim>\<open>results\<close>.  The inner \<open>case\<close> is the \<^verbatim>\<open>try\<close> block, the outer one its two handlers.
\<close>

fun is_TimeoutExpired :: "exn \<Rightarrow> bool" where
  "is_TimeoutExpired (TimeoutExpired txt) = True"
| "is_TimeoutExpired e = False"

definition device_info_line :: "string \<Rightarrow> string \<Rightarrow> child \<Rightarrow> string option" where
  "device_info_line label command ch =
     (case subprocess_run command (Some 10) ch of
        None \<Rightarrow> None
      | Some r \<Rightarrow>
          Some (case (case r of
                        Inl e \<Rightarrow> Inl e
                      | Inr result \<Rightarrow>
                          if returncode result = 0 then
                            (case format_output label (strip (stdout result)) of
                               Inl e \<Rightarrow> Inl e
                             | Inr formatted_output \<Rightarrow> Inr (label @ '': '' @ formatted_output))
                          else Inr (label @ '': Error - '' @ strip (stderr result)))
                of
                  Inr line \<Rightarrow> line
                | Inl e \<Rightarrow>
                    if is_TimeoutExpired e then label @ '': Timeout''
                    else label @ '': Error - '' @ str_exn e))"

text \<open>
  The loop and the run.  \<open>env i\<close> is what the child of the \<open>i\<close>-th command does.  The run
  emits \<^verbatim>\<open>info_ready\<close> once, with the lines joined; the result is that text.
\<close>

fun device_info_loop :: "(nat \<Rightarrow> child) \<Rightarrow> nat \<Rightarrow> (string \<times> string) list \<Rightarrow> string list option" where
  "device_info_loop env i [] = Some []"
| "device_info_loop env i ((label, command) # rest) =
     (case device_info_line label command (env i) of
        None \<Rightarrow> None
      | Some line \<Rightarrow>
          (case device_info_loop env (Suc i) rest of
             None \<Rightarrow> None
           | Some results \<Rightarrow> Some (line # results)))"

definition DeviceInfoWorker_run :: "string \<Rightarrow> (nat \<Rightarrow> child) \<Rightarrow> string option" where
  "DeviceInfoWorker_run adb_path env =
     (case device_info_loop env 0 (get_device_commands adb_path) of
        None \<Rightarrow> None
      | Some results \<Rightarrow> Some (join ''\<newline>'' results))"

subsection \<open>The lines of a run\<close>

lemma py_int_no_timeout: "py_int s = Inl e \<Longrightarrow> \<not> is_TimeoutExpired e"
  by (auto simp: py_int_def Let_def split: if_splits)

lemma ceil_gb_no_timeout: "ceil_gb n = Inl e \<Longrightarrow> \<not> is_TimeoutExpired e"
  by (auto simp: ceil_gb_def true_divide_def Let_def split: if_splits sum.splits)

lemma parse_total_ram_lines_no_timeout:
  "parse_total_ram_lines ls = Inl e \<Longrightarrow> \<not> is_TimeoutExpired e"
  by (induction ls) (auto split: if_splits list.splits dest: py_int_no_timeout)

lemma parse_total_storage_lines_no_timeout:
  "parse_total_storage_lines ls = Inl e \<Longrightarrow> \<not> is_TimeoutExpired e"
  by (induction ls) (auto simp: Let_def split: if_splits dest: py_int_no_timeout)

lemma format_output_no_timeout: "format_output label output = Inl e \<Longrightarrow> \<not> is_TimeoutExpired e"
  by (auto simp: format_output_def parse_total_ram_def parse_total_storage_def
      split: if_splits sum.splits
      dest: ceil_gb_no_timeout parse_total_ram_lines_no_timeout parse_total_storage_lines_no_timeout)

lemma device_info_line_Exits:
  "device_info_line label command (Exits d rc out err) =
     Some (if d > 10 then label @ '': Timeout''
           else if rc \<noteq> 0 then label @ '': Error - '' @ strip err
           else (case format_output label (strip out) of
                   Inr formatted \<Rightarrow> label @ '': '' @ formatted
                 | Inl e \<Rightarrow> label @ '': Error - '' @ str_exn e))"
  by (auto simp: device_info_line_def subprocess_run_def split: sum.splits
      dest: format_output_no_timeout)

lemma device_info_line_Hangs:
  "device_info_line label command Hangs = Some (label @ '': Timeout'')"
  by (simp add: device_info_line_def subprocess_run_def)

lemma device_info_line_Fails:
  "device_info_line label command (Fails e) =
     Some (if is_TimeoutExpired e then label @ '': Timeout'' else label @ '': Error - '' @ str_exn e)"
  by (simp add: device_info_line_def subprocess_run_def)

lemma device_info_line_total: "\<exists>line. device_info_line label command ch = Some line"
  by (cases ch) (simp_all add: device_info_line_Exits device_info_line_Hangs device_info_line_Fails)

lemma device_info_loop_lines:
  "\<exists>results. device_info_loop env k cmds = Some results \<and>
     map Some results = map (\<lambda>(i, (label, command)). device_info_line label command (env i)) (enumerate k cmds)"
proof (induction cmds arbitrary: k)
  case Nil
  then show ?case by simp
next
  case (Cons c cmds)
  obtain label command where c: "c = (label, command)" by (cases c)
  obtain line where l: "device_info_line label command (env k) = Some line"
    using device_info_line_total by blast
  from Cons.IH [of "Suc k"] obtain results where
    r: "device_info_loop env (Suc k) cmds = Some results"
       "map Some results = map (\<lambda>(i, (label, command)). device_info_line label command (env i)) (enumerate (Suc k) cmds)"
    by blast
  show ?case using c l r by simp
qed

text \<open>
  Claim C4, as amended.  Every command gives exactly one line, in the order of the
  commands, and the run emits the lines joined by newlines.  The line is
  \<open>label: Timeout\<close> when the child takes more than 10 seconds or never exits,
  \<open>label: Error - \<close> and the stripped standard error when the return code is not 0, and
  \<open>label: \<close> and the formatted stripped output when the return code is 0 and the
  formatter returns.  When the formatter raises, or the call fails with another
  exception, the line is \<open>label: Error - \<close> and the exception's text.
\<close>

theorem C4_device_info_lines:
  "device_info_line label command (Exits d rc out err) =
     Some (if d > 10 then label @ '': Timeout''
           else if rc \<noteq> 0 then label @ '': Error - '' @ strip err
           else (case format_output label (strip out) of
                   Inr formatted \<Rightarrow> label @ '': '' @ formatted
                 | Inl e \<Rightarrow> label @ '': Error - '' @ str_exn e)) \<and>
   device_info_line label command Hangs = Some (label @ '': Timeout'') \<and>
   device_info_line label command (Fails e) =
     Some (if is_TimeoutExpired e then label @ '': Timeout'' else label @ '': Error - '' @ str_exn e) \<and>
   (\<exists>results.
      DeviceInfoWorker_run adb_path env = Some (join ''\<newline>'' results) \<and>
      length results = length (get_device_commands adb_path) \<and>
      map Some results =
        map (\<lambda>(i, (label, command)). device_info_line label command (env i))
          (enumerate 0 (get_device_commands adb_path)))"
proof -
  obtain results where r: "device_info_loop env 0 (get_device_commands adb_path) = Some results"
    "map Some results =
        map (\<lambda>(i, (label, command)). device_info_line label command (env i))
          (enumerate 0 (get_device_commands adb_path))"
    using device_info_loop_lines by blast
  from r(2) have "length (map Some results) = length (enumerate 0 (get_device_commands adb_path))"
    by (metis length_map)
  then have "length results = length (get_device_commands adb_path)" by simp
  with r have "\<exists>results.
      DeviceInfoWorker_run adb_path env = Some (join ''\<newline>'' results) \<and>
      length results = length (get_device_commands adb_path) \<and>
      map Some results =
        map (\<lambda>(i, (label, command)). device_info_line label command (env i))
          (enumerate 0 (get_device_commands adb_path))"
    by (intro exI [of _ results]) (simp add: DeviceInfoWorker_run_def)
  then show ?thesis
    by (simp only: device_info_line_Exits device_info_line_Hangs device_info_line_Fails simp_thms)
qed

theorem C4_device_info_lines_witness:
  "device_info_line ''Model'' ''adb shell getprop ro.product.model'' (Exits 1 0 ''Pixel 7\<newline>'' [])
     = Some ''Model: Pixel 7'' \<and>
   device_info_line ''Model'' ''adb shell getprop ro.product.model'' (Exits 1 1 [] ''error: no devices\<newline>'')
     = Some ''Model: Error - error: no devices'' \<and>
   device_info_line ''Model'' ''adb shell getprop ro.product.model'' (Exits 11 0 ''Pixel 7\<newline>'' [])
     = Some ''Model: Timeout''"
proof -
  have f: "format_output ''Model'' (strip ''Pixel 7\<newline>'') = Inr ''Pixel 7''" by code_simp
  have g: "strip ''error: no devices\<newline>'' = ''error: no devices''" by code_simp
  show ?thesis
    using C4_device_info_lines [where label="''Model''" and command="''adb shell getprop ro.product.model''" and d=1 and rc=0 and out="''Pixel 7\<newline>''" and err="[]"]
      C4_device_info_lines [where label="''Model''" and command="''adb shell getprop ro.product.model''" and d=1 and rc=1 and out="[]" and err="''error: no devices\<newline>''"]
      C4_device_info_lines [where label="''Model''" and command="''adb shell getprop ro.product.model''" and d=11 and rc=0 and out="''Pixel 7\<newline>''" and err="[]"]
      f g
    by simp
qed

text \<open>
  The claim as stated fails where the formatter raises: \<^verbatim>\<open>_parse_total_ram\<close> indexes the
  second field of a line that has one field only, and the line reports the error although
  the return code is 0.
\<close>

theorem C4_formatter_raises_counterexample:
  "format_output ''Total RAM'' (strip ''MemTotal'') = Inl (IndexError ''list index out of range'') \<and>
   device_info_line ''Total RAM'' ''adb shell cat /proc/meminfo'' (Exits 1 0 ''MemTotal'' [])
     = Some ''Total RAM: Error - list index out of range''"
  by code_simp

section \<open>Wireless ADB dialog (main/adbfunc.py)\<close>

text \<open>What a handler does to the user interface, in the order it does it.\<close>

datatype ui =
    MsgCritical string string
  | MsgWarning string string
  | MsgInformation string string
  | StatusMessage string
  | LogMessage string
  | RunCommandAsync string string string
  | AcceptDialog

text \<open>
  \<^verbatim>\<open>WirelessADBDialog._validate_address\<close>.  The \<^verbatim>\<open>try\<close> block is the inner \<open>case\<close>:
  unpacking \<^verbatim>\<open>host, port\<close> needs two parts, \<^verbatim>\<open>int(port)\<close> may raise, and only a
  \<^verbatim>\<open>ValueError\<close> is caught.
\<close>

definition validate_address :: "string \<Rightarrow> exn + bool" where
  "validate_address address =
     (if address = [] then Inr False
      else if CHR '':'' \<notin> set address then Inr False
      else
        (case (case rsplit1 (CHR '':'') address of
                 [host, port] \<Rightarrow>
                   (case py_int port of
                      Inl e \<Rightarrow> Inl e
                    | Inr port_num \<Rightarrow> Inr (length host > 0 \<and> 1 \<le> port_num \<and> port_num \<le> 65535))
               | _ \<Rightarrow> Inl (ValueError ''not enough values to unpack (expected 2, got 1)''))
         of
           Inr b \<Rightarrow> Inr b
         | Inl e \<Rightarrow> if is_ValueError e then Inr False else Inl e))"

text \<open>
  \<^verbatim>\<open>WirelessADBDialog._connect_wireless_adb\<close>: \<open>entry_text\<close> is the text of the address
  field, \<open>has_run_command_async\<close> says whether the parent window has the method.
\<close>

definition connect_wireless_adb :: "string \<Rightarrow> bool \<Rightarrow> exn + ui list" where
  "connect_wireless_adb entry_text has_run_command_async =
     (let address = strip entry_text in
      case validate_address address of
        Inl e \<Rightarrow> Inl e
      | Inr ok \<Rightarrow>
          if \<not> ok then
            Inr [MsgCritical ''Error''
                   ''Please enter a valid address (HOST:PORT).\<newline>Example: 192.168.1.100:5555'']
          else if has_run_command_async then
            Inr [RunCommandAsync (''adb connect '' @ address) (''Connecting to '' @ address) ''ADB'',
                 AcceptDialog]
          else Inr [MsgCritical ''Error'' ''Parent application method not found.''])"

text \<open>
  The check as the specification words it: the address is not empty, has a colon, the
  part before the last colon is not empty, and the part after the last colon parses as an
  integer from 1 to 65535.
\<close>

definition valid_address_spec :: "string \<Rightarrow> bool" where
  "valid_address_spec a \<longleftrightarrow>
     a \<noteq> [] \<and> CHR '':'' \<in> set a \<and>
     (\<exists>host port n. a = host @ [CHR '':''] @ port \<and> CHR '':'' \<notin> set port \<and>
        host \<noteq> [] \<and> py_int port = Inr n \<and> 1 \<le> n \<and> n \<le> 65535)"

fun is_connect_command :: "ui \<Rightarrow> bool" where
  "is_connect_command (RunCommandAsync c d k) = prefix ''adb connect '' c"
| "is_connect_command u = False"

definition issues_connect :: "exn + ui list \<Rightarrow> bool" where
  "issues_connect r = (case r of Inl e \<Rightarrow> False | Inr evs \<Rightarrow> list_ex is_connect_command evs)"

subsection \<open>Facts about \<open>rsplit1\<close> and \<open>py_int\<close>\<close>

lemma rsplit1_at_last:
  assumes "c \<notin> set p"
  shows "rsplit1 c (h @ [c] @ p) = [h, p]"
proof -
  have r: "rev (h @ [c] @ p) = rev p @ c # rev h" by simp
  have a: "\<And>x. x \<in> set (rev p) \<Longrightarrow> x \<noteq> c" using assms by auto
  have t: "takeWhile (\<lambda>x. x \<noteq> c) (rev p @ c # rev h) = rev p"
    using takeWhile_append2 [of "rev p" "\<lambda>x. x \<noteq> c" "c # rev h"] a by simp
  have d: "dropWhile (\<lambda>x. x \<noteq> c) (rev p @ c # rev h) = c # rev h"
    using dropWhile_append2 [of "rev p" "\<lambda>x. x \<noteq> c" "c # rev h"] a by simp
  have m: "c \<in> set (h @ [c] @ p)" by simp
  show ?thesis unfolding rsplit1_def using m r t d by simp
qed

lemma rsplit1_decompose:
  assumes "c \<in> set s"
  shows "\<exists>h p. rsplit1 c s = [h, p] \<and> s = h @ [c] @ p \<and> c \<notin> set p"
proof -
  let ?P = "\<lambda>x. x \<noteq> c"
  let ?t = "takeWhile ?P (rev s)" and ?d = "dropWhile ?P (rev s)"
  have "c \<in> set (rev s)" using assms by simp
  then have dne: "?d \<noteq> []" by (auto simp: dropWhile_eq_Nil_conv)
  then have "\<not> ?P (hd ?d)" by (rule hd_dropWhile)
  then have hd: "hd ?d = c" by simp
  from dne hd have dd: "?d = c # drop 1 ?d" by (cases ?d) auto
  have "rev s = ?t @ ?d" by simp
  then have "rev s = ?t @ c # drop 1 ?d" using dd by simp
  then have "rev (rev s) = rev (?t @ c # drop 1 ?d)" by simp
  then have "s = rev (drop 1 ?d) @ [c] @ rev ?t" by simp
  moreover have "c \<notin> set (rev ?t)" using set_takeWhileD [of c ?P "rev s"] by auto
  moreover have "rsplit1 c s = [rev (drop 1 ?d), rev ?t]" using assms by (simp add: rsplit1_def)
  ultimately show ?thesis by blast
qed

lemma py_int_raises_ValueError: "py_int s = Inl e \<Longrightarrow> is_ValueError e"
  by (auto simp: py_int_def Let_def split: if_splits)

subsection \<open>The address check\<close>

lemma validate_address_spec_eq: "validate_address a = Inr (valid_address_spec a)"
proof (cases "a = [] \<or> CHR '':'' \<notin> set a")
  case True
  then show ?thesis by (auto simp: validate_address_def valid_address_spec_def)
next
  case False
  then have ne: "a \<noteq> []" and colon: "CHR '':'' \<in> set a" by auto
  from rsplit1_decompose [OF colon] obtain h p where
    rs: "rsplit1 (CHR '':'') a = [h, p]" and a: "a = h @ [CHR '':''] @ p" and np: "CHR '':'' \<notin> set p"
    by blast
  have uniq: "host = h \<and> port = p"
    if "a = host @ [CHR '':''] @ port" "CHR '':'' \<notin> set port" for host port
    using rsplit1_at_last [OF that(2), of host] that(1) rs by simp
  show ?thesis
  proof (cases "py_int p")
    case (Inl e)
    then have "is_ValueError e" by (rule py_int_raises_ValueError)
    then have v: "validate_address a = Inr False"
      using ne colon rs Inl by (simp add: validate_address_def)
    have "\<not> valid_address_spec a"
      unfolding valid_address_spec_def using uniq Inl by auto
    with v show ?thesis by simp
  next
    case (Inr n)
    then have v: "validate_address a = Inr (length h > 0 \<and> 1 \<le> n \<and> n \<le> 65535)"
      using ne colon rs by (simp add: validate_address_def)
    have "valid_address_spec a \<longleftrightarrow> h \<noteq> [] \<and> 1 \<le> n \<and> n \<le> 65535"
    proof
      assume "valid_address_spec a"
      then obtain host port m where
        "a = host @ [CHR '':''] @ port" "CHR '':'' \<notin> set port" "host \<noteq> []"
        "py_int port = Inr m" "1 \<le> m" "m \<le> 65535"
        unfolding valid_address_spec_def by blast
      then show "h \<noteq> [] \<and> 1 \<le> n \<and> n \<le> 65535" using uniq Inr by auto
    next
      assume "h \<noteq> [] \<and> 1 \<le> n \<and> n \<le> 65535"
      then show "valid_address_spec a"
        unfolding valid_address_spec_def using ne colon a np Inr by blast
    qed
    with v show ?thesis by simp
  qed
qed

text \<open>
  Claim C10.  \<^verbatim>\<open>_validate_address\<close> never raises and returns \<^verbatim>\<open>True\<close> exactly when the
  address is not empty, has a colon, the text before the last colon is not empty and the
  text after the last colon parses (\<^verbatim>\<open>int\<close>) as a number from 1 to 65535.  The dialog strips
  the field's text first, and it issues \<^verbatim>\<open>adb connect\<close> exactly when the stripped text
  passes the check and the parent window has \<^verbatim>\<open>run_command_async\<close>.
\<close>

theorem C10_validate_address:
  "validate_address a = Inr (valid_address_spec a) \<and>
   (issues_connect (connect_wireless_adb entry_text has_method) \<longleftrightarrow>
      has_method \<and> valid_address_spec (strip entry_text))"
  by (simp add: connect_wireless_adb_def issues_connect_def validate_address_spec_eq Let_def)

theorem C10_validate_address_witness:
  "valid_address_spec ''192.168.1.100:5555'' \<and> \<not> valid_address_spec '':5555'' \<and>
   \<not> valid_address_spec ''host:65536'' \<and>
   issues_connect (connect_wireless_adb '' 10.0.0.2:5555 '' True)"
proof -
  have a: "validate_address ''192.168.1.100:5555'' = Inr True" by code_simp
  have b: "validate_address '':5555'' = Inr False" by code_simp
  have c: "validate_address ''host:65536'' = Inr False" by code_simp
  have d: "validate_address (strip '' 10.0.0.2:5555 '') = Inr True" by code_simp
  show ?thesis
    using C10_validate_address [of "''192.168.1.100:5555''" "[]" False]
      C10_validate_address [of "'':5555''" "[]" False]
      C10_validate_address [of "''host:65536''" "[]" False]
      C10_validate_address [of "strip '' 10.0.0.2:5555 ''" "'' 10.0.0.2:5555 ''" True]
      a b c d
    by simp
qed

section \<open>Partition manager (modules/partitionmanager.py)\<close>

subsection \<open>Sizes\<close>

text \<open>
  \<^verbatim>\<open>FormatSize.human_readable_size\<close>.  The first division is of an integer and may
  overflow; the loop then runs on the double \<open>m / 1024 ^ i\<close>, at most four times in all.
\<close>

definition size_names :: "string list" where
  "size_names = [''B'', ''KB'', ''MB'', ''GB'', ''TB'']"

function size_loop :: "int \<Rightarrow> nat \<Rightarrow> nat" where
  "size_loop m i = (if m \<ge> 1024 * 2 ^ (10 * i) \<and> i < length size_names - 1 then size_loop m (Suc i) else i)"
  by pat_completeness auto
termination
  by (relation "measure (\<lambda>(m, i). length size_names - 1 - i)") auto

declare size_loop.simps [simp del]

definition human_readable_size :: "int \<Rightarrow> exn + string" where
  "human_readable_size size_bytes =
     (if size_bytes = 0 then Inr ''0 B''
      else if \<not> (size_bytes \<ge> 1024 \<and> 0 < length size_names - 1)
      then Inr (format_fixed 2 size_bytes 0 @ '' '' @ size_names ! 0)
      else
        (case true_divide size_bytes 10 of
           Inl e \<Rightarrow> Inl e
         | Inr m \<Rightarrow>
             (let i = size_loop m 1 in Inr (format_fixed 2 m (10 * i) @ '' '' @ size_names ! i))))"

subsection \<open>Loading the partitions\<close>

record partition =
  p_name :: string
  p_path :: string
  p_permissions :: string
  p_size_bytes :: int
  p_size_human :: string

datatype load_signal =
    LoadLog string
  | ErrorOccurred string
  | ProgressUpdate nat nat
  | PartitionsLoaded "partition list"
  | FinishedLoading

text \<open>
  \<^verbatim>\<open>PartitionLoadWorker.get_partition_size\<close>.  The call has no timeout, so the result is
  \<open>None\<close> when the child never exits.  Every exception is caught and gives 0.
\<close>

definition blockdev_command :: "string \<Rightarrow> string \<Rightarrow> string list" where
  "blockdev_command adb_path partition_name =
     [adb_path, ''shell'', ''su'', ''-c'', ''blockdev --getsize64 /dev/block/by-name/'' @ partition_name]"

definition get_partition_size :: "string \<Rightarrow> string \<Rightarrow> child \<Rightarrow> int option" where
  "get_partition_size adb_path partition_name ch =
     (case subprocess_run (py_repr_list (blockdev_command adb_path partition_name)) None ch of
        None \<Rightarrow> None
      | Some r \<Rightarrow>
          Some (case (case r of
                        Inl e \<Rightarrow> Inl e
                      | Inr result \<Rightarrow>
                          if returncode result = 0 then
                            (let size = strip (stdout result) in
                             if isdigit size then py_int size else Inr 0)
                          else Inr 0)
                of
                  Inr n \<Rightarrow> n
                | Inl e \<Rightarrow> 0))"

text \<open>
  The loop of \<^verbatim>\<open>PartitionLoadWorker.run\<close> over the lines after the first.  \<open>sizes k\<close> is
  what the child of the \<open>k\<close>-th \<^verbatim>\<open>blockdev\<close> call does; \<open>current\<close> counts the lines.  The
  result is the signals of the loop and the entries appended to \<^verbatim>\<open>partitions_data\<close>.
\<close>

fun load_loop :: "string \<Rightarrow> (nat \<Rightarrow> child) \<Rightarrow> nat \<Rightarrow> nat \<Rightarrow> nat \<Rightarrow> string list
    \<Rightarrow> (load_signal list \<times> partition list) option" where
  "load_loop adb_path sizes k current total_partitions [] = Some ([], [])"
| "load_loop adb_path sizes k current total_partitions (line # rest) =
     (let parts = py_split None line in
      if length parts \<ge> 9 then
        (let permissions = parts ! 0;
             partition_name = parts ! (length parts - 3);
             partition_path = parts ! (length parts - 1)
         in
         if \<not> contains ''lrwxrwxrwx'' permissions \<or> \<not> contains ''->'' line
         then load_loop adb_path sizes k (Suc current) total_partitions rest
         else
           (case get_partition_size adb_path partition_name (sizes k) of
              None \<Rightarrow> None
            | Some size_bytes \<Rightarrow>
                (case load_loop adb_path sizes (Suc k) (Suc current) total_partitions rest of
                   None \<Rightarrow> None
                 | Some (signals, partitions_data) \<Rightarrow>
                     (case human_readable_size size_bytes of
                        Inl e \<Rightarrow>
                          Some ([ProgressUpdate (current + 1) total_partitions,
                                 LoadLog (''Getting size for partition: '' @ partition_name),
                                 LoadLog (''Error processing partition: '' @ str_exn e)] @ signals,
                                partitions_data)
                      | Inr size_human \<Rightarrow>
                          Some ([ProgressUpdate (current + 1) total_partitions,
                                 LoadLog (''Getting size for partition: '' @ partition_name)] @ signals,
                                \<lparr>p_name = partition_name, p_path = partition_path,
                                 p_permissions = permissions, p_size_bytes = size_bytes,
                                 p_size_human = size_human\<rparr> # partitions_data)))))
      else load_loop adb_path sizes k (Suc current) total_partitions rest)"

text \<open>
  \<^verbatim>\<open>PartitionLoadWorker.run\<close>: \<open>ls\<close> is what the child of \<^verbatim>\<open>ls -l /dev/block/by-name\<close> does.
  The result is the signals of a run that returns, and \<open>None\<close> for a run that never
  returns because a child never exits.
\<close>

definition ls_command :: "string \<Rightarrow> string list" where
  "ls_command adb_path = [adb_path, ''shell'', ''ls -l /dev/block/by-name'']"

definition PartitionLoadWorker_run :: "string \<Rightarrow> child \<Rightarrow> (nat \<Rightarrow> child) \<Rightarrow> load_signal list option" where
  "PartitionLoadWorker_run adb_path ls sizes =
     (case subprocess_run (py_repr_list (ls_command adb_path)) None ls of
        None \<Rightarrow> None
      | Some (Inl e) \<Rightarrow>
          Some [LoadLog ''Loading partitions from device...'',
                ErrorOccurred (''Error loading partitions:\<newline>'' @ str_exn e)]
      | Some (Inr result) \<Rightarrow>
          if returncode result \<noteq> 0 then
            Some [LoadLog ''Loading partitions from device...'',
                  ErrorOccurred (''Failed to load partitions:\<newline>'' @ strip (stderr result))]
          else
            (let lines = splitlines (stdout result) in
             if lines = [] \<or> length lines \<le> 1 then
               Some [LoadLog ''Loading partitions from device...'',
                     ErrorOccurred ''No partitions found or device not accessible.'']
             else
               (let lines = drop 1 lines in
                case load_loop adb_path sizes 0 0 (length lines) lines of
                  None \<Rightarrow> None
                | Some (signals, partitions_data) \<Rightarrow>
                    Some ([LoadLog ''Loading partitions from device...''] @ signals @
                          [PartitionsLoaded partitions_data,
                           LoadLog (''Loaded '' @ show_digits (int (length partitions_data))
                                    @ '' partitions from device''),
                           FinishedLoading]))))"

subsection \<open>The entries, as the specification words them\<close>

text \<open>
  A partition line has at least nine whitespace fields, a permission field that contains
  \<^verbatim>\<open>lrwxrwxrwx\<close>, and contains \<^verbatim>\<open>->\<close>.  The size of a partition is the number that
  \<^verbatim>\<open>blockdev --getsize64\<close> prints, and 0 when the command fails, when its stripped output is
  not all digits, or when it has more digits than \<^verbatim>\<open>int\<close> converts.  The entry of a line takes
  the name from the third field from the end and the path from the last field; there is
  none when the size cannot be formatted.
\<close>

definition partition_line :: "string \<Rightarrow> bool" where
  "partition_line line \<longleftrightarrow>
     length (py_split None line) \<ge> 9 \<and> contains ''lrwxrwxrwx'' (hd (py_split None line)) \<and>
     contains ''->'' line"

definition blockdev_size :: "child \<Rightarrow> int" where
  "blockdev_size ch =
     (case ch of
        Exits d rc out err \<Rightarrow>
          if rc = 0 \<and> isdigit (strip out) \<and> length (strip out) \<le> int_max_str_digits
          then int_of_digits (strip out) else 0
      | Hangs \<Rightarrow> 0
      | Fails e \<Rightarrow> 0)"

definition partition_entry :: "string \<Rightarrow> child \<Rightarrow> partition option" where
  "partition_entry line ch =
     (let parts = py_split None line in
      case human_readable_size (blockdev_size ch) of
        Inl e \<Rightarrow> None
      | Inr size_human \<Rightarrow>
          Some \<lparr>p_name = parts ! (length parts - 3), p_path = last parts, p_permissions = hd parts,
                p_size_bytes = blockdev_size ch, p_size_human = size_human\<rparr>)"

definition emitted_partitions :: "load_signal list \<Rightarrow> partition list list" where
  "emitted_partitions signals =
     concat (map (\<lambda>s. case s of PartitionsLoaded ps \<Rightarrow> [ps] | _ \<Rightarrow> []) signals)"

subsection \<open>Facts about the loading loop\<close>

lemma isdigit_char_plain:
  "isdigit_char c \<Longrightarrow> \<not> int_space c \<and> c \<noteq> CHR ''-'' \<and> c \<noteq> CHR ''+'' \<and> c \<noteq> CHR ''_''"
  by (auto simp: isdigit_char_def int_space_def)

lemma valid_digits_all: "s \<noteq> [] \<Longrightarrow> list_all isdigit_char s \<Longrightarrow> valid_digits s"
  by (induction s rule: valid_digits.induct) (auto dest: isdigit_char_plain)

lemma strip_no_space:
  assumes "s \<noteq> []" "\<not> P (hd s)" "\<not> P (last s)"
  shows "rev (dropWhile P (rev (dropWhile P s))) = s"
proof -
  have a: "dropWhile P s = s" using assms(1,2) by (cases s) auto
  have "rev s \<noteq> []" "\<not> P (hd (rev s))" using assms by (auto simp: hd_rev)
  then have "dropWhile P (rev s) = rev s" by (cases "rev s") auto
  with a show ?thesis by simp
qed

lemma py_int_isdigit:
  assumes "isdigit s"
  shows "py_int s = (if length s \<le> int_max_str_digits then Inr (int_of_digits s)
                     else Inl (ValueError (''Exceeds the limit (4300 digits) for integer string conversion: value has ''
                      @ show_digits (int (length s))
                      @ '' digits; use sys.set_int_max_str_digits() to increase the limit'')))"
proof -
  from assms have ne: "s \<noteq> []" and all: "list_all isdigit_char s" by (auto simp: isdigit_def)
  then have h: "isdigit_char (hd s)" and l: "isdigit_char (last s)"
    by (auto simp: list_all_iff)
  have st: "rev (dropWhile int_space (rev (dropWhile int_space s))) = s"
    using strip_no_space [of s int_space] ne h l isdigit_char_plain by blast
  have f: "filter (\<lambda>c. c \<noteq> CHR ''_'') s = s"
    using all isdigit_char_plain by (auto simp: list_all_iff filter_id_conv)
  obtain c r where cr: "s = c # r" using ne by (cases s) auto
  with h have c: "c \<noteq> CHR ''-''" "c \<noteq> CHR ''+''" using isdigit_char_plain by auto
  have v: "valid_digits s" using valid_digits_all ne all by blast
  show ?thesis
    unfolding py_int_def st Let_def using cr c v f by auto
qed

lemma get_partition_size_eq:
  "get_partition_size adb_path partition_name ch = (if ch = Hangs then None else Some (blockdev_size ch))"
  by (cases ch)
     (auto simp: get_partition_size_def subprocess_run_def blockdev_size_def Let_def py_int_isdigit)

lemma load_loop_entries:
  assumes "\<forall>k. sizes k \<noteq> Hangs"
  shows "\<exists>signals. load_loop adb_path sizes k current tot lines =
           Some (signals, List.map_filter (\<lambda>(i, line). partition_entry line (sizes i))
                            (enumerate k (filter partition_line lines))) \<and>
           emitted_partitions signals = []"
proof (induction lines arbitrary: k current)
  case Nil
  then show ?case by (simp add: emitted_partitions_def List.map_filter_simps)
next
  case (Cons line rest)
  let ?parts = "py_split None line"
  show ?case
  proof (cases "partition_line line")
    case False
    have "load_loop adb_path sizes k current tot (line # rest) =
        load_loop adb_path sizes k (Suc current) tot rest"
    proof (cases "length ?parts \<ge> 9")
      case short: False
      then show ?thesis by (simp add: Let_def)
    next
      case long: True
      then have "?parts \<noteq> []" by auto
      then have "hd ?parts = ?parts ! 0" by (simp add: hd_conv_nth)
      with False long have "\<not> contains ''lrwxrwxrwx'' (?parts ! 0) \<or> \<not> contains ''->'' line"
        by (auto simp: partition_line_def)
      with long show ?thesis by (simp add: Let_def)
    qed
    with False Cons.IH [of k "Suc current"] show ?thesis by simp
  next
    case True
    then have len: "length ?parts \<ge> 9" and perm0: "contains ''lrwxrwxrwx'' (hd ?parts)"
      and arrow: "contains ''->'' line"
      by (auto simp: partition_line_def)
    from len have ne: "?parts \<noteq> []" by auto
    then have "hd ?parts = ?parts ! 0" by (simp add: hd_conv_nth)
    with perm0 have perm: "contains ''lrwxrwxrwx'' (?parts ! 0)" by simp
    have sz: "get_partition_size adb_path (?parts ! (length ?parts - 3)) (sizes k) = Some (blockdev_size (sizes k))"
      using assms by (simp add: get_partition_size_eq)
    from Cons.IH [of "Suc k" "Suc current"] obtain signals where
      ih: "load_loop adb_path sizes (Suc k) (Suc current) tot rest =
           Some (signals, List.map_filter (\<lambda>(i, line). partition_entry line (sizes i))
                            (enumerate (Suc k) (filter partition_line rest)))"
          "emitted_partitions signals = []"
      by blast
    show ?thesis
    proof (cases "human_readable_size (blockdev_size (sizes k))")
      case (Inl e)
      then have pe: "partition_entry line (sizes k) = None" by (simp add: partition_entry_def Let_def)
      show ?thesis
        using True len perm arrow sz ih Inl pe
        by (simp add: Let_def List.map_filter_simps emitted_partitions_def)
    next
      case (Inr h)
      then have pe: "partition_entry line (sizes k) =
          Some \<lparr>p_name = ?parts ! (length ?parts - 3), p_path = ?parts ! (length ?parts - 1),
                p_permissions = ?parts ! 0, p_size_bytes = blockdev_size (sizes k), p_size_human = h\<rparr>"
        using ne by (simp add: partition_entry_def Let_def hd_conv_nth last_conv_nth)
      show ?thesis
        using True len perm arrow sz ih Inr pe
        by (simp add: Let_def List.map_filter_simps emitted_partitions_def)
    qed
  qed
qed

lemma load_loop_Hangs:
  "load_loop adb_path sizes k current tot lines = None \<Longrightarrow> \<exists>i. sizes i = Hangs"
proof (rule ccontr)
  assume n: "load_loop adb_path sizes k current tot lines = None" and "\<not> (\<exists>i. sizes i = Hangs)"
  then have "\<forall>k. sizes k \<noteq> Hangs" by simp
  from load_loop_entries [OF this, of adb_path k current tot lines] n show False by auto
qed

lemma PartitionLoadWorker_run_listing:
  assumes "\<forall>k. sizes k \<noteq> Hangs"
  shows "map_option emitted_partitions (PartitionLoadWorker_run adb_path (Exits d 0 out err) sizes) =
       Some (if length (splitlines out) > 1
             then [List.map_filter (\<lambda>(i, line). partition_entry line (sizes i))
                     (enumerate 0 (filter partition_line (drop 1 (splitlines out))))]
             else [])"
proof (cases "length (splitlines out) > 1")
  case False
  then have "splitlines out = [] \<or> length (splitlines out) \<le> 1" by auto
  then show ?thesis using False
    by (auto simp: PartitionLoadWorker_run_def subprocess_run_def Let_def emitted_partitions_def)
next
  case True
  let ?lines = "drop 1 (splitlines out)"
  from load_loop_entries [OF assms, of adb_path 0 0 "length ?lines" ?lines] obtain signals where
    l: "load_loop adb_path sizes 0 0 (length ?lines) ?lines =
           Some (signals, List.map_filter (\<lambda>(i, line). partition_entry line (sizes i))
                            (enumerate 0 (filter partition_line ?lines)))"
       "emitted_partitions signals = []"
    by blast
  from l(2) have e: "concat (map (case_load_signal (\<lambda>x. []) (\<lambda>x. []) (\<lambda>x y. []) (\<lambda>ps. [ps]) []) signals) = []"
    by (simp add: emitted_partitions_def)
  from True have n: "splitlines out \<noteq> []" "\<not> length (splitlines out) \<le> 1" by auto
  show ?thesis using True n l(1) e
    by (simp add: PartitionLoadWorker_run_def subprocess_run_def Let_def emitted_partitions_def)
qed

lemma PartitionLoadWorker_run_failed:
  "rc \<noteq> 0 \<Longrightarrow> PartitionLoadWorker_run adb_path (Exits d rc out err) sizes =
     Some [LoadLog ''Loading partitions from device...'',
           ErrorOccurred (''Failed to load partitions:\<newline>'' @ strip err)]"
  by (simp add: PartitionLoadWorker_run_def subprocess_run_def)

text \<open>
  Claim C5, as amended.  When \<^verbatim>\<open>ls\<close> returns code 0 with more than one line of output and
  no \<^verbatim>\<open>blockdev\<close> call blocks, the worker emits one list of partitions: in the order of the
  lines after the first, the entry of every partition line whose size can be formatted,
  the \<open>i\<close>-th such line with the size of the \<open>i\<close>-th \<^verbatim>\<open>blockdev\<close> call.  With one line or
  none it emits no list.
\<close>

theorem C5_partition_entries:
  assumes "\<forall>k. sizes k \<noteq> Hangs"
  shows "get_partition_size adb_path partition_name (sizes k) = Some (blockdev_size (sizes k)) \<and>
     map_option emitted_partitions (PartitionLoadWorker_run adb_path (Exits d 0 out err) sizes) =
       Some (if length (splitlines out) > 1
             then [List.map_filter (\<lambda>(i, line). partition_entry line (sizes i))
                     (enumerate 0 (filter partition_line (drop 1 (splitlines out))))]
             else [])"
  using assms PartitionLoadWorker_run_listing [OF assms] by (simp add: get_partition_size_eq)

theorem C5_partition_entries_witness:
  "map_option emitted_partitions
     (PartitionLoadWorker_run ''adb''
        (Exits 1 0 ''total 0\<newline>lrwxrwxrwx 1 root root 21 2024-01-01 00:00 boot -> /dev/block/sda1\<newline>drwxr-xr-x 2 root root 40 2024-01-01 00:00 . -> x\<newline>'' [])
        (\<lambda>k. Exits 1 0 ''67108864\<newline>'' []))
   = Some [[\<lparr>p_name = ''boot'', p_path = ''/dev/block/sda1'', p_permissions = ''lrwxrwxrwx'',
             p_size_bytes = 67108864, p_size_human = ''64.00 MB''\<rparr>]]"
proof -
  have h: "\<forall>k. (\<lambda>k. Exits 1 0 ''67108864\<newline>'' []) k \<noteq> Hangs" by simp
  have r: "(if length (splitlines ''total 0\<newline>lrwxrwxrwx 1 root root 21 2024-01-01 00:00 boot -> /dev/block/sda1\<newline>drwxr-xr-x 2 root root 40 2024-01-01 00:00 . -> x\<newline>'') > 1
             then [List.map_filter (\<lambda>(i, line). partition_entry line ((\<lambda>k. Exits 1 0 ''67108864\<newline>'' []) i))
                     (enumerate 0 (filter partition_line (drop 1 (splitlines ''total 0\<newline>lrwxrwxrwx 1 root root 21 2024-01-01 00:00 boot -> /dev/block/sda1\<newline>drwxr-xr-x 2 root root 40 2024-01-01 00:00 . -> x\<newline>''))))]
             else [])
     = [[\<lparr>p_name = ''boot'', p_path = ''/dev/block/sda1'', p_permissions = ''lrwxrwxrwx'',
             p_size_bytes = 67108864, p_size_human = ''64.00 MB''\<rparr>]]"
    by code_simp
  show ?thesis
    using C5_partition_entries [where sizes="\<lambda>k. Exits 1 0 ''67108864\<newline>'' []" and adb_path="''adb''" and d=1
        and out="''total 0\<newline>lrwxrwxrwx 1 root root 21 2024-01-01 00:00 boot -> /dev/block/sda1\<newline>drwxr-xr-x 2 root root 40 2024-01-01 00:00 . -> x\<newline>''"
        and err="[]", OF h]
    unfolding r by simp
qed

text \<open>
  The claim as stated fails in two places.  A listing that \<^verbatim>\<open>ls\<close> returns with a non-zero
  code gives no entry, whatever its lines are.  And a partition line gives no entry when
  the size that \<^verbatim>\<open>blockdev\<close> reports is too large for the floating-point division of
  \<^verbatim>\<open>human_readable_size\<close>: the inner handler logs the error and the loop goes on.
\<close>

theorem C5_failed_listing_counterexample:
  "partition_line ''lrwxrwxrwx 1 root root 21 2024-01-01 00:00 boot -> /dev/block/sda1'' \<and>
   PartitionLoadWorker_run ''adb''
     (Exits 1 0 ''total 0\<newline>lrwxrwxrwx 1 root root 21 2024-01-01 00:00 boot -> /dev/block/sda1\<newline>'' [])
     (\<lambda>k. Exits 1 0 ''1000000000000000000000000000000000000000000000000000000000000000000000000000000000000000000000000000000000000000000000000000000000000000000000000000000000000000000000000000000000000000000000000000000000000000000000000000000000000000000000000000000000000000000000000000000000000000000000000000000000000000000000000000000000000000000\<newline>'' [])
   = Some [LoadLog ''Loading partitions from device...'', ProgressUpdate 1 1,
           LoadLog ''Getting size for partition: boot'',
           LoadLog ''Error processing partition: integer division result too large for a float'',
           PartitionsLoaded [], LoadLog ''Loaded 0 partitions from device'', FinishedLoading] \<and>
   PartitionLoadWorker_run ''adb''
     (Exits 1 1 ''total 0\<newline>lrwxrwxrwx 1 root root 21 2024-01-01 00:00 boot -> /dev/block/sda1\<newline>''
        ''ls: /dev/block/by-name/userdata: Permission denied\<newline>'')
     (\<lambda>k. Exits 1 0 ''67108864\<newline>'' [])
   = Some [LoadLog ''Loading partitions from device...'',
           ErrorOccurred ''Failed to load partitions:\<newline>ls: /dev/block/by-name/userdata: Permission denied'']"
  by code_simp

subsection \<open>Flashing a partition\<close>

text \<open>
  \<^verbatim>\<open>PartitionManager.flash_partition\<close>.  The state holds what the method reads and
  writes: the selection, the progress dialog (its label and title), the flash worker (its
  partition and image path) and the five widgets it disables.  \<open>reply_yes\<close> and
  \<open>image_path\<close> are the user's answers to the two dialogs.  The result is the dialogs
  shown, the new state, and the worker the method started, if it started one.
\<close>

datatype dialog =
    Warning string string
  | Critical string string
  | WarningYesNo string string
  | GetOpenFileName string string

record pm_state =
  selected_partitions :: "partition list"
  progress_dialog :: "(string \<times> string) option"
  flash_worker :: "(partition \<times> string) option"
  pull_button_enabled :: bool
  flash_button_enabled :: bool
  toggle_partition_selection_button_enabled :: bool
  tree_view_enabled :: bool
  refresh_button_enabled :: bool

definition flash_warning_msg :: "string \<Rightarrow> string" where
  "flash_warning_msg partition_name =
     ''WARNING: You are about to flash the '' @ [CHR 0x27] @ partition_name @ [CHR 0x27] @ '' partition!\<newline>\<newline>'' @
     ''This operation will OVERWRITE the existing partition data and cannot be undone.\<newline>'' @
     ''Flashing incorrect data or interrupting the process may lead to system instability '' @
     ''or brick your device.\<newline>\<newline>'' @
     ''Are you absolutely sure you want to continue?''"

definition flash_partition :: "pm_state \<Rightarrow> bool \<Rightarrow> string
    \<Rightarrow> dialog list \<times> pm_state \<times> (partition \<times> string) option" where
  "flash_partition st reply_yes image_path =
     (if length (selected_partitions st) = 0 then
        ([Warning ''No Selection'' ''No partition selected for flashing.''], st, None)
      else if length (selected_partitions st) > 1 then
        ([Critical ''Multiple Selections''
            (''For safety reasons, you can only flash one partition at a time. '' @
             ''Please select only one partition.'')], st, None)
      else
        (let partition_info = selected_partitions st ! 0;
             partition_name = p_name partition_info;
             ask = WarningYesNo ''Flash Partition - DANGER'' (flash_warning_msg partition_name)
         in
         if \<not> reply_yes then ([ask], st, None)
         else
           (let pick = GetOpenFileName (''Select Image File for '' @ partition_name)
                         ''Image Files (*.img);;All Files (*)''
            in
            if image_path = [] then ([ask, pick], st, None)
            else
              ([ask, pick],
               st\<lparr>progress_dialog := Some (''Preparing to flash partition...'', ''Flashing '' @ partition_name),
                  flash_worker := Some (partition_info, image_path),
                  pull_button_enabled := False,
                  flash_button_enabled := False,
                  toggle_partition_selection_button_enabled := False,
                  tree_view_enabled := False,
                  refresh_button_enabled := False\<rparr>,
               Some (partition_info, image_path)))))"

text \<open>
  \<^verbatim>\<open>PartitionFlashWorker.run\<close>: the commands the worker has issued, the signals it has
  emitted, and whether it returned (no call has a timeout).  \<open>env i\<close> is what the child
  of the \<open>i\<close>-th command does.
\<close>

datatype flash_signal = FlashLog string | FlashProgress string | FinishedWithStatus bool

definition push_command :: "string \<Rightarrow> string \<Rightarrow> string \<Rightarrow> string list" where
  "push_command adb_path image_path partition_name =
     [adb_path, ''push'', image_path, ''/sdcard/'' @ partition_name @ ''.img'']"

definition dd_command :: "string \<Rightarrow> string \<Rightarrow> string list" where
  "dd_command adb_path partition_name =
     [adb_path, ''shell'', ''su'', ''-c'',
      ''dd if=/sdcard/'' @ partition_name @ ''.img of=/dev/block/by-name/'' @ partition_name]"

definition rm_command :: "string \<Rightarrow> string \<Rightarrow> string list" where
  "rm_command adb_path partition_name =
     [adb_path, ''shell'', ''su'', ''-c'', ''rm /sdcard/'' @ partition_name @ ''.img'']"

definition flash_failed :: "exn \<Rightarrow> flash_signal list" where
  "flash_failed e =
     [FlashLog (''Error during flash operation: '' @ str_exn e),
      FlashProgress ''Error during flash operation'',
      FinishedWithStatus False]"

definition PartitionFlashWorker_run :: "string \<Rightarrow> partition \<Rightarrow> string \<Rightarrow> (nat \<Rightarrow> child)
    \<Rightarrow> string list list \<times> flash_signal list \<times> bool" where
  "PartitionFlashWorker_run adb_path partition_info image_path env =
     (let partition_name = p_name partition_info;
          push = push_command adb_path image_path partition_name;
          dd = dd_command adb_path partition_name;
          rm = rm_command adb_path partition_name;
          s0 = [FlashProgress ''Pushing image file to device...'',
                FlashLog (''Pushing image for '' @ partition_name @ '' to device...'')]
      in
      case subprocess_run (py_repr_list push) None (env 0) of
        None \<Rightarrow> ([push], s0, False)
      | Some (Inl e) \<Rightarrow> ([push], s0 @ flash_failed e, True)
      | Some (Inr result) \<Rightarrow>
          if returncode result \<noteq> 0 then
            ([push],
             s0 @ [FlashLog (''Failed to push image to device: '' @ strip (stderr result)),
                   FlashProgress ''Failed to push image to device'',
                   FinishedWithStatus False],
             True)
          else
            (let s1 = s0 @ [FlashProgress (''Flashing '' @ partition_name @ ''...''),
                            FlashLog (''Flashing '' @ partition_name @ ''...'')]
             in
             case subprocess_run (py_repr_list dd) None (env 1) of
               None \<Rightarrow> ([push, dd], s1, False)
             | Some (Inl e) \<Rightarrow> ([push, dd], s1 @ flash_failed e, True)
             | Some (Inr result) \<Rightarrow>
                 (let partition_success = (returncode result = 0);
                      s2 = s1 @
                        (if returncode result \<noteq> 0 then
                           [FlashLog (''Failed to flash '' @ partition_name @ '': '' @ strip (stderr result)),
                            FlashProgress (''Failed to flash '' @ partition_name)]
                         else
                           [FlashLog (''Successfully flashed '' @ partition_name),
                            FlashProgress (''Successfully flashed '' @ partition_name)]) @
                        [FlashProgress ''Cleaning up...'', FlashLog ''Cleaning up temporary files...'']
                  in
                  case subprocess_run (py_repr_list rm) None (env 2) of
                    None \<Rightarrow> ([push, dd, rm], s2, False)
                  | Some (Inl e) \<Rightarrow> ([push, dd, rm], s2 @ flash_failed e, True)
                  | Some (Inr result) \<Rightarrow>
                      ([push, dd, rm],
                       s2 @
                       (if returncode result \<noteq> 0 then
                          [FlashLog (''Failed to remove temporary file: '' @ strip (stderr result)),
                           FlashProgress ''Failed to clean up temporary file'']
                        else []) @
                       [FinishedWithStatus partition_success],
                       True))))"

text \<open>The commands that pressing the flash button sends to the device.\<close>

definition flash_commands :: "string \<Rightarrow> pm_state \<Rightarrow> bool \<Rightarrow> string \<Rightarrow> (nat \<Rightarrow> child) \<Rightarrow> string list list" where
  "flash_commands adb_path st reply_yes image_path env =
     (case snd (snd (flash_partition st reply_yes image_path)) of
        None \<Rightarrow> []
      | Some (partition_info, img) \<Rightarrow> fst (PartitionFlashWorker_run adb_path partition_info img env))"

text \<open>
  Claim C9.  With no partition selected, or more than one, \<^verbatim>\<open>flash_partition\<close> shows one
  dialog and returns: the state is unchanged, no worker is started, and no command is
  sent.  A worker is started exactly when one partition is selected, the user confirms
  and picks an image; so commands are sent only with exactly one partition selected.
\<close>

theorem C9_flash_partition_single_selection:
  "(length (selected_partitions st) \<noteq> 1 \<longrightarrow>
      (\<exists>d. flash_partition st reply_yes image_path = ([d], st, None)) \<and>
      flash_commands adb_path st reply_yes image_path env = []) \<and>
   (snd (snd (flash_partition st reply_yes image_path)) \<noteq> None \<longleftrightarrow>
      length (selected_partitions st) = 1 \<and> reply_yes \<and> image_path \<noteq> []) \<and>
   (flash_commands adb_path st reply_yes image_path env \<noteq> [] \<longrightarrow>
      length (selected_partitions st) = 1)"
proof -
  have one: "length (selected_partitions st) = 1"
    if "selected_partitions st \<noteq> []" "\<not> 1 < length (selected_partitions st)"
    using that by (cases "selected_partitions st") auto
  show ?thesis
    using one by (auto simp: flash_partition_def flash_commands_def Let_def split: if_splits)
qed


theorem C9_flash_partition_single_selection_witness:
  "(\<exists>d. flash_partition
           \<lparr>selected_partitions = [], progress_dialog = None, flash_worker = None,
            pull_button_enabled = True, flash_button_enabled = True,
            toggle_partition_selection_button_enabled = True, tree_view_enabled = True,
            refresh_button_enabled = True\<rparr> True ''boot.img''
         = ([d],
            \<lparr>selected_partitions = [], progress_dialog = None, flash_worker = None,
             pull_button_enabled = True, flash_button_enabled = True,
             toggle_partition_selection_button_enabled = True, tree_view_enabled = True,
             refresh_button_enabled = True\<rparr>, None)) \<and>
   flash_commands ''adb''
     \<lparr>selected_partitions = [], progress_dialog = None, flash_worker = None,
      pull_button_enabled = True, flash_button_enabled = True,
      toggle_partition_selection_button_enabled = True, tree_view_enabled = True,
      refresh_button_enabled = True\<rparr> True ''boot.img'' (\<lambda>i. Exits 1 0 [] []) = []"
  using C9_flash_partition_single_selection
    [where st="\<lparr>selected_partitions = [], progress_dialog = None, flash_worker = None,
            pull_button_enabled = True, flash_button_enabled = True,
            toggle_partition_selection_button_enabled = True, tree_view_enabled = True,
            refresh_button_enabled = True\<rparr>" and reply_yes=True and image_path="''boot.img''"
       and adb_path="''adb''" and env="\<lambda>i. Exits 1 0 [] []"]
  by simp

section \<open>App manager (modules/appmanager.py)\<close>

subsection \<open>Loading the apps\<close>

text \<open>
  \<^verbatim>\<open>AppManagerWorker.parse_app_info\<close>.  Nothing in the \<^verbatim>\<open>try\<close> block can raise; the triple
  of \<^verbatim>\<open>None\<close>s that the method returns otherwise is \<open>None\<close> here.
\<close>

definition classify_path :: "string \<Rightarrow> string" where
  "classify_path file_path =
     (if contains ''/data/app/'' file_path then ''User App''
      else if contains ''/system/app/'' file_path \<or> contains ''/system/priv-app/'' file_path
      then ''System App''
      else if contains ''/vendor/'' file_path then ''Vendor App''
      else ''Unknown'')"

definition app_name_of :: "string \<Rightarrow> string" where
  "app_name_of package_name =
     capitalize (py_replace ''_'' '' '' (last (split_on (CHR ''.'') package_name)))"

definition parse_app_info :: "string \<Rightarrow> (string \<times> string \<times> string) option" where
  "parse_app_info package_info =
     (let parts = split_on (CHR ''='') package_info;
          package_name = strip (last parts);
          path_part = join ''='' (butlast parts);
          file_path = strip (py_replace ''package:'' [] path_part)
      in
      if package_name \<noteq> [] then
        (let app_type = classify_path file_path;
             app_name = app_name_of package_name
         in Some (app_name, package_name, app_type))
      else None)"

text \<open>
  \<^verbatim>\<open>AppManagerWorker.load_apps\<close>, with the \<^verbatim>\<open>finished\<close> signal that \<^verbatim>\<open>run\<close> emits after
  it.  \<^verbatim>\<open>_run_adb_command\<close> passes no timeout.  \<open>listing\<close> is what the child of
  \<^verbatim>\<open>pm list packages -f\<close> does and \<open>disabled\<close> what the child of \<^verbatim>\<open>pm list packages -d\<close>
  does; the return code of the second is not looked at.
\<close>

datatype app_signal =
    AppLog string
  | AppsLoaded "(string \<times> string \<times> string \<times> string) list"
  | AppFinished

definition run_adb_command :: "string \<Rightarrow> string list \<Rightarrow> child \<Rightarrow> (exn + completed) option" where
  "run_adb_command adb_exe command_args ch =
     subprocess_run (py_repr_list (adb_exe # command_args)) None ch"

definition disabled_packages_of :: "string \<Rightarrow> string set" where
  "disabled_packages_of out = set (map (\<lambda>line. strip (py_replace ''package:'' [] line)) (splitlines out))"

fun all_apps_of :: "string set \<Rightarrow> string list \<Rightarrow> (string \<times> string \<times> string \<times> string) list" where
  "all_apps_of disabled_packages [] = []"
| "all_apps_of disabled_packages (package_info # packages) =
     (case parse_app_info package_info of
        Some (app_name, package_name, app_type) \<Rightarrow>
          if app_name \<noteq> [] \<and> package_name \<noteq> [] then
            (app_name, package_name,
             if package_name \<in> disabled_packages then ''Disabled'' else ''Enabled'', app_type)
              # all_apps_of disabled_packages packages
          else all_apps_of disabled_packages packages
      | None \<Rightarrow> all_apps_of disabled_packages packages)"

definition load_apps :: "string \<Rightarrow> child \<Rightarrow> child \<Rightarrow> app_signal list option" where
  "load_apps adb_exe listing disabled =
     (case run_adb_command adb_exe [''shell'', ''pm'', ''list'', ''packages'', ''-f''] listing of
        None \<Rightarrow> None
      | Some (Inl e) \<Rightarrow>
          Some [AppLog ''Fetching installed apps...'', AppLog (''Error loading apps: '' @ str_exn e),
                AppFinished]
      | Some (Inr result) \<Rightarrow>
          if returncode result \<noteq> 0 then
            Some [AppLog ''Fetching installed apps...'',
                  AppLog (''Error fetching apps: '' @ strip (stderr result)), AppFinished]
          else
            (let packages = splitlines (stdout result) in
             case run_adb_command adb_exe [''shell'', ''pm'', ''list'', ''packages'', ''-d''] disabled of
               None \<Rightarrow> None
             | Some (Inl e) \<Rightarrow>
                 Some [AppLog ''Fetching installed apps...'', AppLog (''Error loading apps: '' @ str_exn e),
                       AppFinished]
             | Some (Inr disabled_result) \<Rightarrow>
                 (let disabled_packages = disabled_packages_of (stdout disabled_result);
                      all_apps = all_apps_of disabled_packages packages
                  in Some [AppLog ''Fetching installed apps...'',
                           AppLog (''Loaded '' @ show_digits (int (length all_apps)) @ '' apps successfully.''),
                           AppsLoaded all_apps, AppFinished])))"


subsection \<open>Facts about splitting and the app list\<close>

lemma split_on_not_Nil: "split_on c s \<noteq> []"
  by (induction s) (auto split: list.splits)

lemma split_on_append:
  "split_on c (a @ c # b) = split_on c a @ split_on c b"
proof (induction a)
  case Nil
  then show ?case by simp
next
  case (Cons x a)
  obtain w ws where w: "split_on c a = w # ws"
    using split_on_not_Nil [of c a] by (cases "split_on c a") auto
  show ?case using Cons w by simp
qed

lemma split_on_absent: "c \<notin> set b \<Longrightarrow> split_on c b = [b]"
  by (induction b) auto

lemma join_Cons_head: "join sep ((x # w) # ws) = x # join sep (w # ws)"
  by (cases ws) auto

lemma join_split_on: "join [c] (split_on c a) = a"
proof (induction a)
  case Nil
  then show ?case by simp
next
  case (Cons x a)
  obtain w ws where w: "split_on c a = w # ws"
    using split_on_not_Nil [of c a] by (cases "split_on c a") auto
  show ?case using Cons w by (simp add: join_Cons_head)
qed

lemma split_at_last:
  assumes "c \<notin> set b"
  shows "last (split_on c (a @ c # b)) = b" and "join [c] (butlast (split_on c (a @ c # b))) = a"
  using assms split_on_not_Nil [of c a]
  by (simp_all add: split_on_append split_on_absent join_split_on butlast_append)

lemma contains_Nil_right: "contains sub [] \<longleftrightarrow> sub = []"
  by simp

lemma parse_app_info_at_last_eq:
  assumes "CHR ''='' \<notin> set pkg"
  shows "parse_app_info (path @ ''='' @ pkg) =
     (if strip pkg = [] then None
      else Some (app_name_of (strip pkg), strip pkg,
                 classify_path (strip (py_replace ''package:'' [] path))))"
  using split_at_last [OF assms, of path]
  by (simp add: parse_app_info_def Let_def)

lemma parse_app_info_no_eq:
  assumes "CHR ''='' \<notin> set line"
  shows "parse_app_info line =
     (if strip line = [] then None else Some (app_name_of (strip line), strip line, ''Unknown''))"
  using assms
  by (simp add: parse_app_info_def Let_def split_on_absent py_replace_def strip_def classify_path_def)

lemma all_apps_of_status:
  "(app_name, package_name, status, app_type) \<in> set (all_apps_of disabled_packages packages) \<Longrightarrow>
     status = (if package_name \<in> disabled_packages then ''Disabled'' else ''Enabled'')"
  by (induction packages) (auto split: option.splits if_splits)

lemma all_apps_of_lines:
  "map (\<lambda>(app_name, package_name, status, app_type). (app_name, package_name, app_type))
       (all_apps_of disabled_packages packages) =
     filter (\<lambda>(app_name, package_name, app_type). app_name \<noteq> [] \<and> package_name \<noteq> [])
       (List.map_filter parse_app_info packages)"
  by (induction packages) (auto simp: List.map_filter_simps split: option.splits)

lemma load_apps_listing:
  "load_apps adb_exe (Exits d 0 out err) (Exits d' rc' out' err') =
     Some [AppLog ''Fetching installed apps...'',
           AppLog (''Loaded '' @ show_digits (int (length (all_apps_of (disabled_packages_of out') (splitlines out))))
                   @ '' apps successfully.''),
           AppsLoaded (all_apps_of (disabled_packages_of out') (splitlines out)), AppFinished]"
  by (simp add: load_apps_def run_adb_command_def subprocess_run_def Let_def)

text \<open>
  Claim C6, as amended.  For a line \<open>path=pkg\<close> where \<open>pkg\<close> has no \<^verbatim>\<open>=\<close>, so that \<open>pkg\<close> is
  the text after the last \<^verbatim>\<open>=\<close>, \<^verbatim>\<open>parse_app_info\<close> returns the stripped \<open>pkg\<close> as the
  package name, and nothing when that is empty.  The type is decided on the text before
  the last \<^verbatim>\<open>=\<close>, with \<^verbatim>\<open>package:\<close> removed and stripped, by the first rule that matches:
  \<^verbatim>\<open>/data/app/\<close>, then \<^verbatim>\<open>/system/app/\<close> or \<^verbatim>\<open>/system/priv-app/\<close>, then \<^verbatim>\<open>/vendor/\<close>.
  \<^verbatim>\<open>load_apps\<close> lists the parsed lines that have an app name, and the status of a listed
  package is \<open>Disabled\<close> exactly when its name is a line of the second listing, with
  \<^verbatim>\<open>package:\<close> removed and stripped.
\<close>

theorem C6_parse_app_info:
  "(CHR ''='' \<notin> set pkg \<longrightarrow>
      parse_app_info (path @ ''='' @ pkg) =
        (if strip pkg = [] then None
         else Some (app_name_of (strip pkg), strip pkg,
                    classify_path (strip (py_replace ''package:'' [] path))))) \<and>
   (classify_path p = ''User App'' \<longleftrightarrow> contains ''/data/app/'' p) \<and>
   (classify_path p = ''System App'' \<longleftrightarrow>
      \<not> contains ''/data/app/'' p \<and> (contains ''/system/app/'' p \<or> contains ''/system/priv-app/'' p)) \<and>
   (classify_path p = ''Vendor App'' \<longleftrightarrow>
      \<not> contains ''/data/app/'' p \<and> \<not> contains ''/system/app/'' p \<and>
      \<not> contains ''/system/priv-app/'' p \<and> contains ''/vendor/'' p) \<and>
   (classify_path p = ''Unknown'' \<longleftrightarrow>
      \<not> contains ''/data/app/'' p \<and> \<not> contains ''/system/app/'' p \<and>
      \<not> contains ''/system/priv-app/'' p \<and> \<not> contains ''/vendor/'' p) \<and>
   (\<exists>all_apps.
      load_apps adb_exe (Exits d 0 out err) (Exits d' rc' out' err') =
        Some [AppLog ''Fetching installed apps...'',
              AppLog (''Loaded '' @ show_digits (int (length all_apps)) @ '' apps successfully.''),
              AppsLoaded all_apps, AppFinished] \<and>
      map (\<lambda>(app_name, package_name, status, app_type). (app_name, package_name, app_type)) all_apps =
        filter (\<lambda>(app_name, package_name, app_type). app_name \<noteq> [] \<and> package_name \<noteq> [])
          (List.map_filter parse_app_info (splitlines out)) \<and>
      (\<forall>app_name package_name status app_type.
         (app_name, package_name, status, app_type) \<in> set all_apps \<longrightarrow>
           (status = ''Disabled'' \<longleftrightarrow> package_name \<in> disabled_packages_of out') \<and>
           (status = ''Enabled'' \<longleftrightarrow> package_name \<notin> disabled_packages_of out')))"
proof -
  have a: "CHR ''='' \<notin> set pkg \<longrightarrow>
      parse_app_info (path @ ''='' @ pkg) =
        (if strip pkg = [] then None
         else Some (app_name_of (strip pkg), strip pkg,
                    classify_path (strip (py_replace ''package:'' [] path))))"
    using parse_app_info_at_last_eq by blast
  have b: "(classify_path p = ''User App'' \<longleftrightarrow> contains ''/data/app/'' p) \<and>
   (classify_path p = ''System App'' \<longleftrightarrow>
      \<not> contains ''/data/app/'' p \<and> (contains ''/system/app/'' p \<or> contains ''/system/priv-app/'' p)) \<and>
   (classify_path p = ''Vendor App'' \<longleftrightarrow>
      \<not> contains ''/data/app/'' p \<and> \<not> contains ''/system/app/'' p \<and>
      \<not> contains ''/system/priv-app/'' p \<and> contains ''/vendor/'' p) \<and>
   (classify_path p = ''Unknown'' \<longleftrightarrow>
      \<not> contains ''/data/app/'' p \<and> \<not> contains ''/system/app/'' p \<and>
      \<not> contains ''/system/priv-app/'' p \<and> \<not> contains ''/vendor/'' p)"
    by (simp add: classify_path_def)
  let ?apps = "all_apps_of (disabled_packages_of out') (splitlines out)"
  have c: "\<forall>app_name package_name status app_type.
         (app_name, package_name, status, app_type) \<in> set ?apps \<longrightarrow>
           (status = ''Disabled'' \<longleftrightarrow> package_name \<in> disabled_packages_of out') \<and>
           (status = ''Enabled'' \<longleftrightarrow> package_name \<notin> disabled_packages_of out')"
  proof (intro allI impI)
    fix app_name package_name status app_type
    assume "(app_name, package_name, status, app_type) \<in> set ?apps"
    then have "status = (if package_name \<in> disabled_packages_of out' then ''Disabled'' else ''Enabled'')"
      by (rule all_apps_of_status)
    then show "(status = ''Disabled'' \<longleftrightarrow> package_name \<in> disabled_packages_of out') \<and>
           (status = ''Enabled'' \<longleftrightarrow> package_name \<notin> disabled_packages_of out')"
      by (cases "package_name \<in> disabled_packages_of out'") simp_all
  qed
  have "\<exists>all_apps.
      load_apps adb_exe (Exits d 0 out err) (Exits d' rc' out' err') =
        Some [AppLog ''Fetching installed apps...'',
              AppLog (''Loaded '' @ show_digits (int (length all_apps)) @ '' apps successfully.''),
              AppsLoaded all_apps, AppFinished] \<and>
      map (\<lambda>(app_name, package_name, status, app_type). (app_name, package_name, app_type)) all_apps =
        filter (\<lambda>(app_name, package_name, app_type). app_name \<noteq> [] \<and> package_name \<noteq> [])
          (List.map_filter parse_app_info (splitlines out)) \<and>
      (\<forall>app_name package_name status app_type.
         (app_name, package_name, status, app_type) \<in> set all_apps \<longrightarrow>
           (status = ''Disabled'' \<longleftrightarrow> package_name \<in> disabled_packages_of out') \<and>
           (status = ''Enabled'' \<longleftrightarrow> package_name \<notin> disabled_packages_of out'))"
    using load_apps_listing all_apps_of_lines c by (intro exI [of _ ?apps] conjI) 
  with a b show ?thesis by blast
qed

theorem C6_parse_app_info_witness:
  "parse_app_info ''package:/data/app/~~Zk3==/com.foo.bar-Q==/base.apk=com.foo.bar'' =
     Some (''Bar'', ''com.foo.bar'', ''User App'') \<and>
   load_apps ''adb''
     (Exits 1 0 ''package:/data/app/a/base.apk=com.a\<newline>package:/system/priv-app/B/B.apk=com.b\<newline>'' [])
     (Exits 1 0 ''package:com.b\<newline>'' []) =
     Some [AppLog ''Fetching installed apps...'', AppLog ''Loaded 2 apps successfully.'',
           AppsLoaded [(''A'', ''com.a'', ''Enabled'', ''User App''),
                       (''B'', ''com.b'', ''Disabled'', ''System App'')],
           AppFinished]"
proof -
  have n: "CHR ''='' \<notin> set ''com.foo.bar''" by simp
  have e: "(if strip ''com.foo.bar'' = [] then None
         else Some (app_name_of (strip ''com.foo.bar''), strip ''com.foo.bar'',
                    classify_path (strip (py_replace ''package:'' [] ''package:/data/app/~~Zk3==/com.foo.bar-Q==/base.apk''))))
       = Some (''Bar'', ''com.foo.bar'', ''User App'')"
    by code_simp
  have l: "load_apps ''adb''
     (Exits 1 0 ''package:/data/app/a/base.apk=com.a\<newline>package:/system/priv-app/B/B.apk=com.b\<newline>'' [])
     (Exits 1 0 ''package:com.b\<newline>'' []) =
     Some [AppLog ''Fetching installed apps...'', AppLog ''Loaded 2 apps successfully.'',
           AppsLoaded [(''A'', ''com.a'', ''Enabled'', ''User App''),
                       (''B'', ''com.b'', ''Disabled'', ''System App'')],
           AppFinished]"
    by code_simp
  from C6_parse_app_info [where pkg="''com.foo.bar''"
      and path="''package:/data/app/~~Zk3==/com.foo.bar-Q==/base.apk''"] n
  have "parse_app_info (''package:/data/app/~~Zk3==/com.foo.bar-Q==/base.apk'' @ ''='' @ ''com.foo.bar'') =
        (if strip ''com.foo.bar'' = [] then None
         else Some (app_name_of (strip ''com.foo.bar''), strip ''com.foo.bar'',
                    classify_path (strip (py_replace ''package:'' [] ''package:/data/app/~~Zk3==/com.foo.bar-Q==/base.apk''))))"
    by blast
  with e l show ?thesis by simp
qed

text \<open>
  The claim as stated fails where the text after the last \<^verbatim>\<open>=\<close> is empty or has
  whitespace around it: the first line gives no package at all, the second a name that is
  not the text after the \<^verbatim>\<open>=\<close>.
\<close>

theorem C6_package_name_counterexample:
  "parse_app_info ''package:/data/app/com.foo-1/base.apk='' = None \<and>
   parse_app_info (''package:/data/app/com.foo-1/base.apk='' @ ''com.foo '') =
     Some (''Foo'', ''com.foo'', ''User App'') \<and>
   ''com.foo'' \<noteq> ''com.foo ''"
  by code_simp

subsection \<open>Presets\<close>

text \<open>
  A preset is a JSON file.  \<open>json\<close> is a JSON value as \<^verbatim>\<open>json.load\<close> returns it (the items of
  an object in the order of the dictionary; a float carries its text), and the file system is
  a function from a path to what \<^verbatim>\<open>json.load(open(path))\<close> gives there: a value or an
  exception.  Writing a value with \<^verbatim>\<open>json.dump\<close> makes the path hold that value.
\<close>

datatype json =
    JNull
  | JBool bool
  | JNumber int
  | JFloat string
  | JString string
  | JArray "json list"
  | JObject "(string \<times> json) list"

type_synonym files = "string \<Rightarrow> exn + json"

text \<open>\<^verbatim>\<open>repr(v)\<close> and \<^verbatim>\<open>str(v)\<close> of such a value.\<close>

fun repr_json :: "json \<Rightarrow> string" where
  "repr_json JNull = ''None''"
| "repr_json (JBool b) = (if b then ''True'' else ''False'')"
| "repr_json (JNumber n) = show_int n"
| "repr_json (JFloat s) = s"
| "repr_json (JString s) = py_repr s"
| "repr_json (JArray xs) = ''['' @ join '', '' (map repr_json xs) @ '']''"
| "repr_json (JObject kvs) =
     ''{'' @ join '', '' (map (\<lambda>kv. py_repr (fst kv) @ '': '' @ repr_json (snd kv)) kvs) @ ''}''"

definition str_json :: "json \<Rightarrow> string" where
  "str_json v = (case v of JString s \<Rightarrow> s | _ \<Rightarrow> repr_json v)"

definition type_name :: "json \<Rightarrow> string" where
  "type_name v =
     (case v of JNull \<Rightarrow> ''NoneType'' | JBool b \<Rightarrow> ''bool'' | JNumber n \<Rightarrow> ''int''
      | JFloat s \<Rightarrow> ''float'' | JString s \<Rightarrow> ''str'' | JArray xs \<Rightarrow> ''list'' | JObject kvs \<Rightarrow> ''dict'')"

text \<open>\<^verbatim>\<open>d.get(key, default)\<close>, which only a dictionary has.\<close>

definition json_get :: "json \<Rightarrow> string \<Rightarrow> json \<Rightarrow> exn + json" where
  "json_get d key dflt =
     (case d of
        JObject kvs \<Rightarrow> Inr (case map_of kvs key of Some v \<Rightarrow> v | None \<Rightarrow> dflt)
      | _ \<Rightarrow> Inl (OtherException ([CHR 0x27] @ type_name d @ [CHR 0x27] @ '' object has no attribute ''
                     @ [CHR 0x27] @ ''get'' @ [CHR 0x27])))"

text \<open>
  \<^verbatim>\<open>set(v)\<close>: the elements of a list, the characters of a string, the keys of a dictionary.
  Lists and dictionaries cannot be elements.  The set is kept as the list of its elements;
  the program only asks whether it is empty and whether a string is in it.
\<close>

definition unhashable :: "json \<Rightarrow> bool" where
  "unhashable v = (case v of JArray xs \<Rightarrow> True | JObject kvs \<Rightarrow> True | _ \<Rightarrow> False)"

definition py_set :: "json \<Rightarrow> exn + json list" where
  "py_set v =
     (case v of
        JArray xs \<Rightarrow>
          (case filter unhashable xs of
             [] \<Rightarrow> Inr xs
           | u # us \<Rightarrow> Inl (OtherException (''unhashable type: '' @ [CHR 0x27] @ type_name u @ [CHR 0x27])))
      | JString s \<Rightarrow> Inr (map (\<lambda>c. JString [c]) s)
      | JObject kvs \<Rightarrow> Inr (map (\<lambda>kv. JString (fst kv)) kvs)
      | _ \<Rightarrow> Inl (OtherException ([CHR 0x27] @ type_name v @ [CHR 0x27] @ '' object is not iterable'')))"

text \<open>
  The window: the rows of the app list (check state, app name, package name, status, type),
  the set of selected packages, and the lines of the log.
\<close>

record app_state =
  app_rows :: "(bool \<times> string \<times> string \<times> string \<times> string) list"
  selected_packages :: "string set"
  log_output :: "string list"

definition log :: "string \<Rightarrow> app_state \<Rightarrow> app_state" where
  "log message st = st\<lparr>log_output := log_output st @ [message]\<rparr>"

text \<open>\<^verbatim>\<open>AppManagerUI.deselect_all\<close>\<close>

definition deselect_all :: "app_state \<Rightarrow> app_state" where
  "deselect_all st =
     log ''Deselected all apps.''
       (st\<lparr>app_rows := map (\<lambda>(checked, r). (False, r)) (app_rows st), selected_packages := {}\<rparr>)"

text \<open>
  \<^verbatim>\<open>AppManagerUI.create_preset\<close>.  \<open>accepted\<close> says whether the user accepted the dialog,
  the three texts are its fields, \<open>file_path\<close> is the path chosen in the file dialog (empty
  when cancelled), and \<open>write_error\<close> is the exception of the write, if it fails.
\<close>

definition create_preset :: "app_state \<Rightarrow> bool \<Rightarrow> string \<Rightarrow> string \<Rightarrow> string \<Rightarrow> string
    \<Rightarrow> exn option \<Rightarrow> files \<Rightarrow> dialog list \<times> app_state \<times> files" where
  "create_preset st accepted name_input author_input description_input file_path write_error fs =
     (if selected_packages st = {} then
        ([Warning ''No Apps Selected'' ''Please select apps before creating a preset.''], st, fs)
      else if \<not> accepted then ([], st, fs)
      else
        (let preset_name = (if strip name_input \<noteq> [] then strip name_input else ''New Preset'');
             packages = sorted_list_of_set (selected_packages st);
             preset_data = JObject [(''name'', JString preset_name),
                                    (''author'', JString (strip author_input)),
                                    (''description'', JString (strip description_input)),
                                    (''selected_packages'', JArray (map JString packages))]
         in
         if file_path = [] then ([], st, fs)
         else
           (case write_error of
              Some e \<Rightarrow>
                ([Critical ''Error Saving Preset'' (''Failed to save preset: '' @ str_exn e)], st, fs)
            | None \<Rightarrow>
                ([],
                 log (''Created preset '' @ [CHR 0x27] @ preset_name @ [CHR 0x27] @ '' with ''
                      @ show_digits (int (length packages)) @ '' apps.'') st,
                 fs(file_path := Inr preset_data)))))"

text \<open>
  \<^verbatim>\<open>AppManagerUI._apply_preset\<close>.  The loop checks the rows whose package is in the preset
  and adds them to the selection.  All that can raise comes before the first change of
  the state, so the handler leaves the state as it was.
\<close>

fun check_rows :: "json list \<Rightarrow> (bool \<times> string \<times> string \<times> string \<times> string) list \<Rightarrow> string set
    \<Rightarrow> (bool \<times> string \<times> string \<times> string \<times> string) list \<times> string set" where
  "check_rows packages_in_preset [] selected = ([], selected)"
| "check_rows packages_in_preset ((checked, app_name, package_name, rest) # others) selected =
     (if JString package_name \<in> set packages_in_preset then
        (let (others', selected') = check_rows packages_in_preset others (insert package_name selected)
         in ((True, app_name, package_name, rest) # others', selected'))
      else
        (let (others', selected') = check_rows packages_in_preset others selected
         in ((checked, app_name, package_name, rest) # others', selected')))"

definition apply_preset :: "string \<Rightarrow> files \<Rightarrow> app_state \<Rightarrow> dialog list \<times> app_state" where
  "apply_preset preset_path fs st =
     (case (case fs preset_path of
              Inl e \<Rightarrow> Inl e
            | Inr preset_data \<Rightarrow>
                (case json_get preset_data ''selected_packages'' (JArray []) of
                   Inl e \<Rightarrow> Inl e
                 | Inr listed \<Rightarrow>
                     (case py_set listed of
                        Inl e \<Rightarrow> Inl e
                      | Inr packages_in_preset \<Rightarrow>
                          if packages_in_preset = [] then Inr (log ''Preset is empty or invalid.'' st)
                          else
                            (let st1 = deselect_all st;
                                 (rows', selected') =
                                    check_rows packages_in_preset (app_rows st1) (selected_packages st1);
                                 st2 = st1\<lparr>app_rows := rows', selected_packages := selected'\<rparr>
                             in
                             case json_get preset_data ''name'' (JString ''Untitled'') of
                               Inl e \<Rightarrow> Inl e
                             | Inr preset_name \<Rightarrow>
                                 Inr (log (''Loaded preset '' @ [CHR 0x27] @ str_json preset_name @ [CHR 0x27]
                                           @ '' with '' @ show_digits (int (card (selected_packages st2)))
                                           @ '' apps selected.'') st2)))))
      of
        Inr st' \<Rightarrow> ([], st')
      | Inl e \<Rightarrow> ([Critical ''Error Loading Preset'' (''Failed to load preset: '' @ str_exn e)], st))"

text \<open>The packages that the app list shows.\<close>

fun row_package :: "bool \<times> string \<times> string \<times> string \<times> string \<Rightarrow> string" where
  "row_package (checked, app_name, package_name, rest) = package_name"

definition shown_packages :: "app_state \<Rightarrow> string set" where
  "shown_packages st = set (map row_package (app_rows st))"

lemma check_rows_eq:
  "check_rows P rows selected =
     (map (\<lambda>(checked, app_name, package_name, rest).
             (checked \<or> JString package_name \<in> set P, app_name, package_name, rest)) rows,
      selected \<union> {package_name. JString package_name \<in> set P \<and>
                    package_name \<in> set (map row_package rows)})"
proof (induction rows arbitrary: selected)
  case Nil
  then show ?case by simp
next
  case (Cons r rows)
  obtain checked app_name package_name rest where r: "r = (checked, app_name, package_name, rest)"
    by (cases r) auto
  show ?case unfolding r by (force simp: Cons.IH)
qed

lemma py_set_strings: "py_set (JArray (map JString xs)) = Inr (map JString xs)"
proof -
  have "filter unhashable (map JString xs) = []"
    by (induction xs) (auto simp: unhashable_def)
  then show ?thesis by (simp add: py_set_def)
qed

lemma apply_preset_listed:
  assumes written: "fs preset_path = Inr (JObject [(''name'', JString preset_name), (''author'', JString author),
                    (''description'', JString description),
                    (''selected_packages'', JArray (map JString packages))])"
    and ne: "packages \<noteq> []"
  shows "apply_preset preset_path fs st =
     ([], log (''Loaded preset '' @ [CHR 0x27] @ preset_name @ [CHR 0x27] @ '' with ''
                @ show_digits (int (card (set packages \<inter> shown_packages st))) @ '' apps selected.'')
            (log ''Deselected all apps.''
               (st\<lparr>app_rows := map (\<lambda>(checked, app_name, package_name, rest).
                                      (package_name \<in> set packages, app_name, package_name, rest)) (app_rows st),
                   selected_packages := set packages \<inter> shown_packages st\<rparr>)))"
proof -
  have m: "JString p \<in> set (map JString packages) \<longleftrightarrow> p \<in> set packages" for p by auto
  have rows: "map (\<lambda>(checked, app_name, package_name, rest).
             (checked \<or> JString package_name \<in> set (map JString packages), app_name, package_name, rest))
           (map (\<lambda>(checked, r). (False, r)) (app_rows st))
       = map (\<lambda>(checked, app_name, package_name, rest).
                                      (package_name \<in> set packages, app_name, package_name, rest)) (app_rows st)"
    by (auto simp: m)
  have names: "map row_package (map (\<lambda>(checked, r). (False, r)) (app_rows st))
             = map row_package (app_rows st)"
    by auto
  have sel: "{package_name. JString package_name \<in> set (map JString packages) \<and>
                package_name \<in> set (map row_package (app_rows st))}
             = set packages \<inter> shown_packages st"
    unfolding shown_packages_def by (auto simp: m)
  show ?thesis
    unfolding apply_preset_def written
    using ne
    by (simp add: json_get_def py_set_strings Let_def deselect_all_def log_def check_rows_eq
        rows names sel str_json_def del: set_map map_map)
qed

lemma create_preset_written:
  assumes "selected_packages st \<noteq> {}" "file_path \<noteq> []"
  shows "snd (snd (create_preset st True name_input author_input description_input file_path None fs)) =
     fs(file_path := Inr (JObject
        [(''name'', JString (if strip name_input \<noteq> [] then strip name_input else ''New Preset'')),
         (''author'', JString (strip author_input)),
         (''description'', JString (strip description_input)),
         (''selected_packages'', JArray (map JString (sorted_list_of_set (selected_packages st))))]))"
  using assms by (simp add: create_preset_def Let_def)

text \<open>
  Claim C8, as amended.  When some packages are selected, the user accepts the dialog,
  picks a file and the write succeeds, \<^verbatim>\<open>create_preset\<close> makes the file hold the sorted
  selection under \<^verbatim>\<open>selected_packages\<close>.  Applying that file to a window, whatever its rows
  and selection are, shows no error, leaves a row checked exactly when its package is in
  the saved selection, and makes the selection the saved one intersected with the packages
  shown.
\<close>

theorem C8_preset_round_trip:
  assumes "finite (selected_packages st)" and "selected_packages st \<noteq> {}" and "file_path \<noteq> []"
  shows "(\<exists>preset_name author description.
            snd (snd (create_preset st True name_input author_input description_input file_path None fs)) file_path
              = Inr (JObject [(''name'', JString preset_name), (''author'', JString author),
                              (''description'', JString description),
                              (''selected_packages'',
                                 JArray (map JString (sorted_list_of_set (selected_packages st))))])) \<and>
         fst (apply_preset file_path
                (snd (snd (create_preset st True name_input author_input description_input file_path None fs)))
                st2) = [] \<and>
         selected_packages (snd (apply_preset file_path
                (snd (snd (create_preset st True name_input author_input description_input file_path None fs)))
                st2)) = selected_packages st \<inter> shown_packages st2 \<and>
         app_rows (snd (apply_preset file_path
                (snd (snd (create_preset st True name_input author_input description_input file_path None fs)))
                st2)) =
           map (\<lambda>(checked, app_name, package_name, rest).
                  (package_name \<in> selected_packages st, app_name, package_name, rest)) (app_rows st2)"
proof -
  let ?S = "selected_packages st"
  let ?fs = "snd (snd (create_preset st True name_input author_input description_input file_path None fs))"
  let ?name = "if strip name_input \<noteq> [] then strip name_input else ''New Preset''"
  have w: "?fs file_path = Inr (JObject [(''name'', JString ?name), (''author'', JString (strip author_input)),
                              (''description'', JString (strip description_input)),
                              (''selected_packages'', JArray (map JString (sorted_list_of_set ?S)))])"
    using create_preset_written [OF assms(2,3)] by simp
  have ne: "sorted_list_of_set ?S \<noteq> []" using assms(1,2) by simp
  have s: "set (sorted_list_of_set ?S) = ?S" using assms(1) by simp
  have a: "apply_preset file_path ?fs st2 =
     ([], log (''Loaded preset '' @ [CHR 0x27] @ ?name @ [CHR 0x27] @ '' with ''
                @ show_digits (int (card (?S \<inter> shown_packages st2))) @ '' apps selected.'')
            (log ''Deselected all apps.''
               (st2\<lparr>app_rows := map (\<lambda>(checked, app_name, package_name, rest).
                                      (package_name \<in> ?S, app_name, package_name, rest)) (app_rows st2),
                   selected_packages := ?S \<inter> shown_packages st2\<rparr>)))"
    using apply_preset_listed [where fs="?fs" and preset_path=file_path and st=st2
        and packages="sorted_list_of_set ?S", OF w ne]
    unfolding s .
  show ?thesis
    unfolding a using w by (simp add: log_def)
qed

theorem C8_preset_round_trip_witness:
  "selected_packages
     (snd (apply_preset ''p.json''
        (snd (snd (create_preset
           \<lparr>app_rows = [], selected_packages = {''com.b'', ''com.a''}, log_output = []\<rparr>
           True ''mine'' [] [] ''p.json'' None (\<lambda>p. Inl (OtherException ''missing'')))))
        \<lparr>app_rows = [(False, ''A'', ''com.a'', ''Enabled'', ''User App''),
                     (True, ''C'', ''com.c'', ''Enabled'', ''User App'')],
         selected_packages = {''com.c''}, log_output = []\<rparr>))
   = {''com.a''}"
  using C8_preset_round_trip [where st="\<lparr>app_rows = [], selected_packages = {''com.b'', ''com.a''}, log_output = []\<rparr>"
      and file_path="''p.json''" and name_input="''mine''" and author_input="[]" and description_input="[]"
      and fs="\<lambda>p. Inl (OtherException ''missing'')"
      and ?st2.0="\<lparr>app_rows = [(False, ''A'', ''com.a'', ''Enabled'', ''User App''),
                     (True, ''C'', ''com.c'', ''Enabled'', ''User App'')],
         selected_packages = {''com.c''}, log_output = []\<rparr>"]
  by (simp add: shown_packages_def)

text \<open>
  The claim as stated fails for the empty selection: \<^verbatim>\<open>create_preset\<close> warns and writes
  nothing, so the file is still missing.
\<close>

theorem C8_empty_selection_counterexample:
  "fst (create_preset \<lparr>app_rows = [], selected_packages = {}, log_output = []\<rparr>
          True ''mine'' [] [] ''p.json'' None (\<lambda>p. Inl (OtherException ''missing'')))
     = [Warning ''No Apps Selected'' ''Please select apps before creating a preset.''] \<and>
   snd (snd (create_preset \<lparr>app_rows = [], selected_packages = {}, log_output = []\<rparr>
          True ''mine'' [] [] ''p.json'' None (\<lambda>p. Inl (OtherException ''missing'')))) ''p.json''
     = Inl (OtherException ''missing'')"
  by (simp add: create_preset_def)

section \<open>Directory listing of the file explorer (modules/fileexplorer.py)\<close>

subsection \<open>The helpers\<close>



text \<open>
  \<^verbatim>\<open>format_size_safe\<close>.  The first pass of the loop has an integer: it formats it, which
  converts it to a double, or divides it, and either may overflow; the handler catches
  \<^verbatim>\<open>ValueError\<close> and \<^verbatim>\<open>TypeError\<close> only, so the \<^verbatim>\<open>OverflowError\<close> leaves the method.  The
  later passes run on the double \<open>m / 2 ^ s\<close>.
\<close>

fun size_units :: "int \<Rightarrow> nat \<Rightarrow> string list \<Rightarrow> string" where
  "size_units m s [] = format_fixed 1 m s @ '' TB''"
| "size_units m s (unit # units) =
     (if m < 1024 * 2 ^ s then format_fixed 1 m s @ '' '' @ unit
      else size_units m (s + 10) units)"

definition format_size_safe :: "string \<Rightarrow> exn + string" where
  "format_size_safe size_bytes_str =
     (case py_int size_bytes_str of
        Inl e \<Rightarrow> if is_ValueError e then Inr ''-'' else Inl e
      | Inr size_bytes \<Rightarrow>
          if size_bytes < 1024 then
            (case int_to_float size_bytes of
               Inl e \<Rightarrow> Inl e
             | Inr m \<Rightarrow> Inr (format_fixed 1 m 0 @ '' B''))
          else
            (case true_divide size_bytes 10 of
               Inl e \<Rightarrow> Inl e
             | Inr m \<Rightarrow> Inr (size_units m 10 [''KB'', ''MB'', ''GB''])))"

subsection \<open>The rows\<close>




subsection \<open>The table\<close>







subsection \<open>The listing, as the specification words it\<close>

text \<open>
  The fields of a line are its whitespace split with at most seven splits; the eighth is
  the name field.  The name of the entry is the name field, or, when that contains
  \<^verbatim>\<open>->\<close>, the stripped text before the first \<^verbatim>\<open>->\<close>; the stripped text after it is the
  target.  A line is listed when it has eight fields, is not blank, does not start with
  \<^verbatim>\<open>total\<close>, \<^verbatim>\<open>ls:\<close> or \<^verbatim>\<open>cannot access\<close>, does not contain \<^verbatim>\<open>Permission denied\<close>, and its
  name is none of \<open>.\<close>, \<open>..\<close> and the empty text.
\<close>

definition fields :: "string \<Rightarrow> string list" where
  "fields line = py_split (Some 7) line"

definition entry_name :: "string \<Rightarrow> string" where
  "entry_name line =
     (let name_part = fields line ! 7 in
      if contains ''->'' name_part then strip (split1 ''->'' name_part ! 0) else name_part)"



definition listed_as_stated :: "string \<Rightarrow> bool" where
  "listed_as_stated line \<longleftrightarrow>
     length (fields line) \<ge> 8 \<and> strip line \<noteq> [] \<and> \<not> startswith line ''total'' \<and>
     \<not> contains ''Permission denied'' line \<and> \<not> startswith line ''ls:'' \<and>
     \<not> startswith line ''cannot access'' \<and> entry_name line \<noteq> ''.'' \<and> entry_name line \<noteq> ''..''"

definition listed :: "string \<Rightarrow> bool" where
  "listed line \<longleftrightarrow> listed_as_stated line \<and> entry_name line \<noteq> []"

subsection \<open>Facts about the listing\<close>






lemma format_size_safe_raises: "format_size_safe s = Inl e \<Longrightarrow> \<not> is_ValueError e"
  by (auto simp: format_size_safe_def true_divide_def int_to_float_def Let_def split: sum.splits if_splits)










section \<open>Pulling and pushing (modules/fileexplorer.py, modules/bootanimcreator.py)\<close>

subsection \<open>The transfer thread\<close>

text \<open>A text between double quotes, as the commands have their paths.\<close>

definition dq :: "string \<Rightarrow> string" where
  "dq s = [CHR 0x22] @ s @ [CHR 0x22]"

text \<open>
  \<^verbatim>\<open>TransferRunner.run\<close> starts \<^verbatim>\<open>adb\<close> with \<^verbatim>\<open>Popen\<close>, the two streams merged, and reads its
  output line by line until the child has exited.  \<open>read_lines\<close> is the lines that
  \<^verbatim>\<open>readline\<close> returns, each without its line feed.  The result of the run is the
  \<^verbatim>\<open>transfer_progress\<close> signals, then the one \<^verbatim>\<open>transfer_finished\<close> signal (output,
  \<^verbatim>\<open>is_error\<close>, local target), or \<open>None\<close> when the child never exits.  A call that fails
  is taken to fail before any line was read.
\<close>

definition read_lines :: "string \<Rightarrow> string list" where
  "read_lines out = (let pieces = split_on (CHR 0x0A) out in
                     if last pieces = [] then butlast pieces else pieces)"

definition TransferRunner_run :: "string \<Rightarrow> string list \<Rightarrow> child
    \<Rightarrow> (string list \<times> string \<times> bool \<times> string) option" where
  "TransferRunner_run adb_path args ch =
     (case ch of
        Hangs \<Rightarrow> None
      | Fails e \<Rightarrow> Some ([], str_exn e, True, [])
      | Exits d ret out err \<Rightarrow>
          (let progress = read_lines out;
               last_line = (if progress = [] then [] else last progress) in
           if ret = 0 then
             (let local_target = (if length args \<ge> 2 then last args else []) in
              Some (progress, if last_line \<noteq> [] then last_line else ''Transfer completed'',
                    False, local_target))
           else
             Some (progress,
                   if last_line \<noteq> [] then last_line
                   else ''Transfer failed (code '' @ show_int ret @ '')'',
                   True, [])))"

subsection \<open>The handlers of a pull and of a push\<close>

text \<open>
  What the window does is a list of events, in the order they happen: a thread is started
  to run \<^verbatim>\<open>adb\<close> with some arguments, a message box is shown, the status bar shows a
  message, the progress dialog is shown, gets a new label or is closed, the file list is
  refreshed.  A handler is connected to the signal of the thread it follows and runs when
  the signal arrives; when the thread never finishes, nothing follows it.
\<close>

datatype fe_event =
    StartThread "string list"
  | MessageBox dialog
  | ShowMessage string
  | ProgressDialog string
  | SetLabelText string
  | ProgressClose
  | RefreshFileList

text \<open>
  Starting a \<^verbatim>\<open>TransferRunner\<close> with its two signals connected: the progress lines go to the
  status bar (\<^verbatim>\<open>handle_transfer_progress\<close>), the final signal to \<open>handler\<close>.  Likewise for
  an \<^verbatim>\<open>ADBThread\<close>.
\<close>

definition start_transfer :: "string \<Rightarrow> string list \<Rightarrow> child
    \<Rightarrow> (string \<Rightarrow> bool \<Rightarrow> string \<Rightarrow> fe_event list) \<Rightarrow> fe_event list" where
  "start_transfer adb_path args ch handler =
     StartThread args #
       (case TransferRunner_run adb_path args ch of
          None \<Rightarrow> []
        | Some (progress, out, err, dest) \<Rightarrow> map ShowMessage progress @ handler out err dest)"

definition start_command :: "string \<Rightarrow> string list \<Rightarrow> string list \<Rightarrow> child
    \<Rightarrow> (string \<Rightarrow> bool \<Rightarrow> fe_event list) \<Rightarrow> fe_event list" where
  "start_command adb_path command params ch handler =
     StartThread (command @ params) #
       (case ADBThread_run adb_path command params ch of
          None \<Rightarrow> []
        | Some emitted \<Rightarrow> concat (map (\<lambda>(out, err). handler out err) emitted))"

definition finish_chmod_pull :: "string \<Rightarrow> bool \<Rightarrow> string \<Rightarrow> fe_event list" where
  "finish_chmod_pull out error name =
     ProgressClose #
       (if error then
          [MessageBox (Critical ''Error'' (''Failed to pull '' @ name @ '' even after chmod: '' @ out)),
           ShowMessage (''Failed to pull '' @ name)]
        else [ShowMessage (''Successfully pulled '' @ name @ '' using chmod method'')])"

definition perform_pull_after_chmod :: "string \<Rightarrow> string \<Rightarrow> bool \<Rightarrow> string \<Rightarrow> string \<Rightarrow> string
    \<Rightarrow> child \<Rightarrow> fe_event list" where
  "perform_pull_after_chmod adb_path out error source_path dest_path name pull_child =
     (if error then
        [ProgressClose,
         MessageBox (Critical ''Error'' (''Failed to set permissions for '' @ name @ '': '' @ out)),
         ShowMessage (''Failed to set permissions for '' @ name)]
      else
        SetLabelText (''Pulling '' @ name @ '' after chmod...'') #
          start_transfer adb_path [''pull'', source_path, dest_path] pull_child
            (\<lambda>out err dest. finish_chmod_pull out err name))"

definition chmod_and_pull :: "string \<Rightarrow> string \<Rightarrow> string \<Rightarrow> string \<Rightarrow> child \<Rightarrow> child
    \<Rightarrow> fe_event list" where
  "chmod_and_pull adb_path source_path dest_path name chmod_child pull_child =
     start_command adb_path [''shell'']
       [''chmod -R 777 '' @ dq source_path] chmod_child
       (\<lambda>out err. perform_pull_after_chmod adb_path out err source_path dest_path name pull_child)"

definition handle_pull_result :: "string \<Rightarrow> string \<Rightarrow> bool \<Rightarrow> string \<Rightarrow> string \<Rightarrow> string
    \<Rightarrow> child \<Rightarrow> child \<Rightarrow> fe_event list" where
  "handle_pull_result adb_path out error name source_path dest_path chmod_child pull_child =
     (if error then
        [ShowMessage (''Regular pull failed for '' @ name @ '', trying chmod fallback...''),
         SetLabelText (''Regular pull failed, trying chmod for '' @ name @ ''...'')] @
        chmod_and_pull adb_path source_path dest_path name chmod_child pull_child
      else [ProgressClose, ShowMessage (''Successfully pulled '' @ name)])"

text \<open>
  \<^verbatim>\<open>start_pull\<close>.  \<open>dest_path\<close> is \<^verbatim>\<open>os.path.join(dest_dir, name)\<close>, and \<open>env\<close> gives the child
  of the first, second and third thread of the pull.  The handler of the first pull hands
  on the local target that the signal carries, not \<open>dest_path\<close>.
\<close>

definition start_pull :: "string \<Rightarrow> string \<Rightarrow> string \<Rightarrow> string \<Rightarrow> bool \<Rightarrow> (nat \<Rightarrow> child)
    \<Rightarrow> fe_event list" where
  "start_pull adb_path source_path dest_path name is_directory env =
     ProgressDialog (''Pulling '' @ name @ ''...'') #
       (let android_path = py_replace [CHR 0x5C] ''/'' source_path in
        if is_directory then chmod_and_pull adb_path android_path dest_path name (env 0) (env 1)
        else
          start_transfer adb_path [''pull'', android_path, dest_path] (env 0)
            (\<lambda>out err dest.
               handle_pull_result adb_path out err name android_path dest (env 1) (env 2)))"


text \<open>The threads that a list of events started, in order.\<close>

fun threads :: "fe_event list \<Rightarrow> string list list" where
  "threads [] = []"
| "threads (StartThread args # es) = args # threads es"
| "threads (e # es) = threads es"

subsection \<open>Pulling the boot animation\<close>














subsection \<open>What follows a failed pull\<close>

lemma threads_append: "threads (xs @ ys) = threads xs @ threads ys"
  by (induction xs rule: threads.induct) simp_all

lemma threads_ShowMessage: "threads (map ShowMessage ps) = []"
  by (induction ps) simp_all






lemma threads_start_pull_ok:
  assumes "TransferRunner_run adb_path [''pull'', py_replace [CHR 0x5C] ''/'' source_path, dest_path] (env 0)
             = Some (progress, out, False, target)"
  shows "threads (start_pull adb_path source_path dest_path name False env) =
           [[''pull'', py_replace [CHR 0x5C] ''/'' source_path, dest_path]]"
  using assms
  by (simp add: start_pull_def Let_def start_transfer_def threads_append threads_ShowMessage
        handle_pull_result_def)




subsection \<open>What follows a failed block of the boot animation pull\<close>







subsection \<open>Failed commands\<close>




section \<open>Timeouts\<close>




end
